theory Spec2Isabelle
  imports Main "HOL-Library.Sublist"
begin

section \<open>Authentication providers of the ingestion client\<close>

text \<open>
  A shallow embedding of \<^verbatim>\<open>metadata/ingestion/ometa/openmetadata_rest.py\<close>: the six
  authentication providers and their \<^verbatim>\<open>auth_token\<close> / \<^verbatim>\<open>get_access_token\<close> methods.
  Every method is a function from the provider instance and the outside world to an
  outcome, the updated instance and the updated world. An outcome is \<open>Inr\<close> of the returned
  value or \<open>Inl\<close> of the exception that leaves the method; \<^verbatim>\<open>sys.exit\<close> is the
  exception \<open>SystemExit\<close>.
\<close>

subsection \<open>Python values and exceptions\<close>

text \<open>
  The Python values that travel through the providers: \<^verbatim>\<open>None\<close>, booleans, integers,
  strings, a \<^verbatim>\<open>datetime\<close> (seconds since the epoch), lists and dictionaries with string
  keys (what \<^verbatim>\<open>json.loads\<close> produces, floats apart).
\<close>

datatype pyval =
    PyNone
  | PyBool bool
  | PyInt int
  | PyStr string
  | PyDatetime int
  | PyList "pyval list"
  | PyDict "(string \<times> pyval) list"

text \<open>
  The exceptions that are raised. \<open>APIError\<close> is declared in \<^verbatim>\<open>metadata.ingestion.ometa.client\<close>; the
  model keeps the two arguments it is constructed with (\<^verbatim>\<open>error\<close>, \<^verbatim>\<open>http_error\<close>).
  \<open>ExternalError\<close> stands for any exception raised inside an external library
  (connection refused, TLS failure, a refresh error of an SDK).
\<close>

datatype exn =
    APIError pyval "nat option"
  | KeyError string
  | TypeError
  | AttributeError string
  | FileNotFoundError string
  | ValueError
  | JSONDecodeError
  | ExternalError string

text \<open>
  What leaves a method that does not return: an exception the caller can catch as
  \<^verbatim>\<open>Exception\<close>, or the \<^verbatim>\<open>SystemExit\<close> of \<^verbatim>\<open>sys.exit\<close> with its exit status, which ends
  the process.
\<close>

datatype error = Raised exn | SystemExit "nat option"

fun terminates_process :: "error \<Rightarrow> bool" where
  "terminates_process (SystemExit _) = True"
| "terminates_process (Raised _) = False"

text \<open>\<^verbatim>\<open>d[key]\<close>: \<^verbatim>\<open>KeyError\<close> on a dictionary without the key, \<^verbatim>\<open>TypeError\<close> on a
  value that a string cannot index.\<close>

fun getitem :: "pyval \<Rightarrow> string \<Rightarrow> error + pyval" where
  "getitem (PyDict d) k = (case map_of d k of None \<Rightarrow> Inl (Raised (KeyError k)) | Some v \<Rightarrow> Inr v)"
| "getitem _ k = Inl (Raised TypeError)"

text \<open>\<^verbatim>\<open>d.get(key)\<close>: \<^verbatim>\<open>None\<close> when the key is absent; only a dictionary has the method.\<close>

fun dict_get :: "pyval \<Rightarrow> string \<Rightarrow> error + pyval" where
  "dict_get (PyDict d) k = (case map_of d k of None \<Rightarrow> Inr PyNone | Some v \<Rightarrow> Inr v)"
| "dict_get _ k = Inl (Raised (AttributeError ''get''))"

subsection \<open>The outside world\<close>

text \<open>
  What leaves the process: one entry per exchange with the identity backend, with the
  arguments the source passes to the library that performs it.
\<close>

datatype request =
    HTTPSConnectionRequest string string string string "(string \<times> string) list"
  | RequestsPost string "(string \<times> string) list"
  | OktaFireRequest string string "(string \<times> string) list"
  | MsalAcquireToken pyval pyval pyval pyval
  | GoogleRefresh string string

text \<open>What an exchange yields: the library call raises, or it returns a value.\<close>

datatype 'a reply = Fails exn | Answers 'a

text \<open>
  The random source behind \<^verbatim>\<open>uuid.uuid4\<close>: the sequence of the identifiers it hands
  out, in which no identifier occurs twice. (An identifier has 122 random bits; that two
  draws coincide is not modelled.)
\<close>

typedef random_source = "{f :: nat \<Rightarrow> string. inj f}"
proof
  show "(\<lambda>n. replicate n CHR ''u'') \<in> {f :: nat \<Rightarrow> string. inj f}"
    by (auto intro!: injI dest: arg_cong [where f = length])
qed

definition nth_uuid :: "random_source \<Rightarrow> nat \<Rightarrow> string" where
  "nth_uuid s = Rep_random_source s"

text \<open>
  The world: the answers the backend will give to the coming exchanges, the exchanges
  performed so far, the files that exist, the key material that parses, the clock as
  the sequence of the times \<^verbatim>\<open>time.time()\<close> returns with the number of times read so far,
  the random source with the number of identifiers drawn so far, and the two library
  functions \<^verbatim>\<open>json.loads\<close> (\<open>None\<close>: not JSON) and \<^verbatim>\<open>jwt.encode\<close>.
\<close>

record 'a world =
  replies :: "'a reply list"
  sent :: "request list"
  files :: "string \<Rightarrow> string option"
  import_key :: "string \<Rightarrow> string option"
  time_source :: "nat \<Rightarrow> int"
  time_count :: nat
  uuid_source :: random_source
  uuid_count :: nat
  json_loads :: "string \<Rightarrow> pyval option"
  jwt_encode :: "(string \<times> pyval) list \<Rightarrow> string \<Rightarrow> string \<Rightarrow> string option"

text \<open>
  One exchange: the request goes out and the backend's next answer comes back. A backend
  that has no answer left is a connection that fails.
\<close>

definition exchange :: "request \<Rightarrow> 'a world \<Rightarrow> (error + 'a) \<times> 'a world" where
  "exchange rq w =
     (let w' = w\<lparr>sent := sent w @ [rq]\<rparr>
      in case replies w' of
           [] \<Rightarrow> (Inl (Raised (ExternalError ''connection failed'')), w')
         | Fails e # rs \<Rightarrow> (Inl (Raised e), w'\<lparr>replies := rs\<rparr>)
         | Answers a # rs \<Rightarrow> (Inr a, w'\<lparr>replies := rs\<rparr>))"

definition loads :: "'a world \<Rightarrow> string \<Rightarrow> error + pyval" where
  "loads w s = (case json_loads w s of None \<Rightarrow> Inl (Raised JSONDecodeError) | Some v \<Rightarrow> Inr v)"

text \<open>An HTTP response as \<^verbatim>\<open>requests\<close> and \<^verbatim>\<open>http.client\<close> hand it over.\<close>

record response =
  status_code :: nat
  resp_text :: string

text \<open>\<^verbatim>\<open>Response.ok\<close> of \<^verbatim>\<open>requests\<close>: no 4xx and no 5xx status.\<close>

definition ok :: "response \<Rightarrow> bool" where
  "ok r = (\<not> (400 \<le> status_code r \<and> status_code r < 600))"

subsection \<open>Configuration and provider instances\<close>

text \<open>
  \<^verbatim>\<open>OpenMetadataServerConfig\<close> is generated code: the model keeps its \<^verbatim>\<open>securityConfig\<close>
  field and, by name, the other attributes the object has. Reading an attribute the
  object lacks raises \<^verbatim>\<open>AttributeError\<close>.
\<close>

record 'sc OpenMetadataServerConfig =
  securityConfig :: 'sc
  attributes :: "(string \<times> pyval) list"

definition getattr :: "'sc OpenMetadataServerConfig \<Rightarrow> string \<Rightarrow> error + pyval" where
  "getattr c name =
     (case map_of (attributes c) name of None \<Rightarrow> Inl (Raised (AttributeError name)) | Some v \<Rightarrow> Inr v)"

record GoogleSSOConfig =
  google_secretKey :: string
  google_audience :: string

record OktaSSOConfig =
  okta_clientId :: string
  okta_orgURL :: string
  okta_privateKey :: string
  okta_scopes :: "string list"

record Auth0SSOConfig =
  auth0_clientId :: string
  auth0_secretKey :: string
  auth0_domain :: string

record CustomOidcSSOConfig =
  oidc_clientId :: string
  oidc_secretKey :: string
  oidc_tokenEndpoint :: string

text \<open>
  A provider instance: \<^verbatim>\<open>self.config\<close>, \<^verbatim>\<open>self.generated_auth_token\<close>, \<^verbatim>\<open>self.expiry\<close>.
  \<^verbatim>\<open>self.security_config\<close> is bound once, in \<^verbatim>\<open>__init__\<close>, to
  \<^verbatim>\<open>self.config.securityConfig\<close>.
\<close>

record 'sc provider =
  config :: "'sc OpenMetadataServerConfig"
  generated_auth_token :: pyval
  expiry :: pyval

definition create :: "'sc OpenMetadataServerConfig \<Rightarrow> 'sc provider" where
  "create c = \<lparr>config = c, generated_auth_token = PyNone, expiry = PyNone\<rparr>"

definition security_config :: "'sc provider \<Rightarrow> 'sc" where
  "security_config p = securityConfig (config p)"

type_synonym ('sc, 'a) outcome = "(error + pyval \<times> pyval) \<times> 'sc provider \<times> 'a world"

text \<open>The body shared by the five \<^verbatim>\<open>get_access_token\<close> methods that call
  \<^verbatim>\<open>self.auth_token()\<close> and return the two fields.\<close>

definition return_fields ::
  "(error + unit) \<times> 'sc provider \<times> 'a world \<Rightarrow> ('sc, 'a) outcome" where
  "return_fields r =
     (case r of
        (Inl e, p, w) \<Rightarrow> (Inl e, p, w)
      | (Inr _, p, w) \<Rightarrow> (Inr (generated_auth_token p, expiry p), p, w))"

text \<open>The instance and the world as a call leaves them.\<close>

abbreviation provider_after :: "'r \<times> 'p \<times> 'w \<Rightarrow> 'p" where
  "provider_after r \<equiv> fst (snd r)"

abbreviation world_after :: "'r \<times> 'p \<times> 'w \<Rightarrow> 'w" where
  "world_after r \<equiv> snd (snd r)"

subsection \<open>NoOpAuthenticationProvider\<close>

definition noop_get_access_token :: "'p \<Rightarrow> 'w \<Rightarrow> (error + pyval \<times> pyval) \<times> 'p \<times> 'w" where
  "noop_get_access_token p w = (Inr (PyStr ''no_token'', PyNone), p, w)"

subsection \<open>CustomOIDCAuthenticationProvider\<close>

definition oidc_auth_token ::
  "CustomOidcSSOConfig provider \<Rightarrow> response world
     \<Rightarrow> (error + unit) \<times> CustomOidcSSOConfig provider \<times> response world" where
  "oidc_auth_token p w =
     (let sc = security_config p;
          data = [(''grant_type'', ''client_credentials''),
                  (''client_id'', oidc_clientId sc),
                  (''client_secret'', oidc_secretKey sc)]
      in case exchange (RequestsPost (oidc_tokenEndpoint sc) data) w of
           (Inl e, w') \<Rightarrow> (Inl e, p, w')
         | (Inr response, w') \<Rightarrow>
             if ok response then
               (case loads w' (resp_text response) of
                  Inl e \<Rightarrow> (Inl e, p, w')
                | Inr response_json \<Rightarrow>
                    (case getitem response_json ''access_token'' of
                       Inl e \<Rightarrow> (Inl e, p, w')
                     | Inr tok \<Rightarrow>
                         (let p1 = p\<lparr>generated_auth_token := tok\<rparr>
                          in case getitem response_json ''expires_in'' of
                               Inl e \<Rightarrow> (Inl e, p1, w')
                             | Inr ex \<Rightarrow> (Inr (), p1\<lparr>expiry := ex\<rparr>, w'))))
             else (Inl (Raised (APIError (PyDict [(''message'', PyStr (resp_text response))])
                          (Some (status_code response)))), p, w'))"

definition oidc_get_access_token ::
  "CustomOidcSSOConfig provider \<Rightarrow> response world \<Rightarrow> (CustomOidcSSOConfig, response) outcome" where
  "oidc_get_access_token p w = return_fields (oidc_auth_token p w)"

subsection \<open>Auth0AuthenticationProvider\<close>

definition auth0_payload :: "Auth0SSOConfig \<Rightarrow> string" where
  "auth0_payload sc =
     ''grant_type=client_credentials&client_id='' @ auth0_clientId sc
       @ ''&client_secret='' @ auth0_secretKey sc
       @ ''&audience=https://'' @ auth0_domain sc @ ''/api/v2/''"

definition auth0_auth_token ::
  "Auth0SSOConfig provider \<Rightarrow> response world
     \<Rightarrow> (error + unit) \<times> Auth0SSOConfig provider \<times> response world" where
  "auth0_auth_token p w =
     (let sc = security_config p;
          payload = auth0_payload sc;
          headers = [(''content-type'', ''application/x-www-form-urlencoded'')]
      in case exchange (HTTPSConnectionRequest (auth0_domain sc) ''POST''
                          (''/'' @ auth0_domain sc @ ''/oauth/token'') payload headers) w of
           (Inl e, w') \<Rightarrow> (Inl e, p, w')
         | (Inr res, w') \<Rightarrow>
             (case loads w' (resp_text res) of
                Inl e \<Rightarrow> (Inl e, p, w')
              | Inr token \<Rightarrow>
                  (case getitem token ''access_token'' of
                     Inl e \<Rightarrow> (Inl e, p, w')
                   | Inr tok \<Rightarrow>
                       (let p1 = p\<lparr>generated_auth_token := tok\<rparr>
                        in case getitem token ''expires_in'' of
                             Inl e \<Rightarrow> (Inl e, p1, w')
                           | Inr ex \<Rightarrow> (Inr (), p1\<lparr>expiry := ex\<rparr>, w')))))"

definition auth0_get_access_token ::
  "Auth0SSOConfig provider \<Rightarrow> response world \<Rightarrow> (Auth0SSOConfig, response) outcome" where
  "auth0_get_access_token p w = return_fields (auth0_auth_token p w)"

subsection \<open>OktaAuthenticationProvider\<close>

text \<open>
  \<^verbatim>\<open>JWT.ONE_HOUR\<close> and \<^verbatim>\<open>JWT.HASH_ALGORITHM\<close> are constants of the Okta SDK
  (\<^verbatim>\<open>okta.jwt\<close>), which is not part of this file: one hour in seconds, and the
  signing algorithm the SDK requires.
\<close>

definition JWT_ONE_HOUR :: int where
  "JWT_ONE_HOUR = 3600"

definition JWT_HASH_ALGORITHM :: string where
  "JWT_HASH_ALGORITHM = ''RS256''"

text \<open>
  \<^verbatim>\<open>JWT.get_PEM_JWK\<close> of the SDK, at its interface: the configured private key is the
  path of a file that exists, whose content is then the key material, or it is the key
  material itself; material that does not parse raises. The model returns the key.
\<close>

definition get_PEM_JWK :: "'a world \<Rightarrow> string \<Rightarrow> error + string" where
  "get_PEM_JWK w private_key =
     (let material = (case files w private_key of Some content \<Rightarrow> content | None \<Rightarrow> private_key)
      in case import_key w material of None \<Rightarrow> Inl (Raised ValueError) | Some my_jwk \<Rightarrow> Inr my_jwk)"

text \<open>\<^verbatim>\<open>int(time.time())\<close>: the next reading of the clock. \<^verbatim>\<open>uuid.uuid4()\<close>: the next
  identifier of the random source.\<close>

definition time_time :: "'a world \<Rightarrow> int \<times> 'a world" where
  "time_time w = (time_source w (time_count w), w\<lparr>time_count := Suc (time_count w)\<rparr>)"

definition uuid4 :: "'a world \<Rightarrow> string \<times> 'a world" where
  "uuid4 w =
     (nth_uuid (uuid_source w) (uuid_count w), w\<lparr>uuid_count := Suc (uuid_count w)\<rparr>)"

text \<open>\<^verbatim>\<open>urllib.parse.quote\<close> with no safe character, as \<^verbatim>\<open>urlencode\<close> calls it, and
  \<^verbatim>\<open>urlencode(parameters, quote_via=quote)\<close>; \<^verbatim>\<open>sep.join(xs)\<close>.\<close>

definition unreserved :: "char \<Rightarrow> bool" where
  "unreserved c =
     (c \<in> set ''ABCDEFGHIJKLMNOPQRSTUVWXYZabcdefghijklmnopqrstuvwxyz0123456789_.-~'')"

definition hex_digit :: "nat \<Rightarrow> char" where
  "hex_digit n = ''0123456789ABCDEF'' ! (n mod 16)"

definition quote :: "string \<Rightarrow> string" where
  "quote s =
     concat (map (\<lambda>c. if unreserved c then [c]
                       else [CHR ''%'', hex_digit (of_char c div 16), hex_digit (of_char c)]) s)"

fun join :: "string \<Rightarrow> string list \<Rightarrow> string" where
  "join sep [] = []"
| "join sep [x] = x"
| "join sep (x # y # ys) = x @ sep @ join sep (y # ys)"

definition urlencode :: "(string \<times> string) list \<Rightarrow> string" where
  "urlencode ps = join ''&'' (map (\<lambda>(k, v). quote k @ ''='' @ quote v) ps)"

text \<open>The claims of the assertion (the dictionary \<^verbatim>\<open>claims\<close>).\<close>

definition okta_claims :: "OktaSSOConfig \<Rightarrow> int \<Rightarrow> int \<Rightarrow> string \<Rightarrow> (string \<times> pyval) list" where
  "okta_claims sc issued_time expiry_time generated_jwt_id =
     [(''sub'', PyStr (okta_clientId sc)),
      (''iat'', PyInt issued_time),
      (''exp'', PyInt expiry_time),
      (''iss'', PyStr (okta_clientId sc)),
      (''aud'', PyStr (okta_orgURL sc)),
      (''jti'', PyStr generated_jwt_id)]"

text \<open>The claims built by a call in world \<open>w\<close>: issued at the time the call reads from
  the clock, valid for \<^verbatim>\<open>JWT.ONE_HOUR\<close>, with the identifier the call draws.\<close>

definition okta_new_claims :: "OktaSSOConfig \<Rightarrow> 'a world \<Rightarrow> (string \<times> pyval) list \<times> 'a world" where
  "okta_new_claims sc w =
     (let (issued_time, w0) = time_time w;
          expiry_time = issued_time + JWT_ONE_HOUR;
          (generated_jwt_id, w1) = uuid4 w0
      in (okta_claims sc issued_time expiry_time generated_jwt_id, w1))"

text \<open>What \<^verbatim>\<open>RequestExecutor.fire_request\<close> returns: the response body \<^verbatim>\<open>res_json\<close> and
  the error \<^verbatim>\<open>err\<close> (\<open>None\<close>: no error).\<close>

record okta_result =
  res_json :: string
  err :: "string option"

definition okta_parameters :: "OktaSSOConfig \<Rightarrow> string \<Rightarrow> (string \<times> string) list" where
  "okta_parameters sc token =
     [(''grant_type'', ''client_credentials''),
      (''scope'', join '' '' (okta_scopes sc)),
      (''client_assertion_type'', ''urn:ietf:params:oauth:client-assertion-type:jwt-bearer''),
      (''client_assertion'', token)]"

text \<open>The body of the \<^verbatim>\<open>try\<close> block of \<^verbatim>\<open>auth_token\<close>.\<close>

definition okta_try ::
  "OktaSSOConfig provider \<Rightarrow> okta_result world
     \<Rightarrow> (error + unit) \<times> OktaSSOConfig provider \<times> okta_result world" where
  "okta_try p w =
     (let sc = security_config p
      in case get_PEM_JWK w (okta_privateKey sc) of
           Inl e \<Rightarrow> (Inl e, p, w)
         | Inr my_jwk \<Rightarrow>
             (let (claims, w1) = okta_new_claims sc w
              in case jwt_encode w1 claims my_jwk JWT_HASH_ALGORITHM of
                   None \<Rightarrow> (Inl (Raised (ExternalError ''jwt.encode'')), p, w1)
                 | Some token \<Rightarrow>
                     (let url = okta_orgURL sc @ ''?'' @ urlencode (okta_parameters sc token);
                          headers = [(''Accept'', ''application/json''),
                                     (''Content-Type'', ''application/x-www-form-urlencoded'')]
                      in case exchange (OktaFireRequest ''POST'' url headers) w1 of
                           (Inl e, w2) \<Rightarrow> (Inl e, p, w2)
                         | (Inr r, w2) \<Rightarrow>
                             (case err r of
                                Some m \<Rightarrow> (Inl (Raised (APIError (PyStr m) None)), p, w2)
                              | None \<Rightarrow>
                                  (case loads w2 (res_json r) of
                                     Inl e \<Rightarrow> (Inl e, p, w2)
                                   | Inr response_dict \<Rightarrow>
                                       (case dict_get response_dict ''access_token'' of
                                          Inl e \<Rightarrow> (Inl e, p, w2)
                                        | Inr tok \<Rightarrow>
                                            (let p1 = p\<lparr>generated_auth_token := tok\<rparr>
                                             in case dict_get response_dict ''expires_in'' of
                                                  Inl e \<Rightarrow> (Inl e, p1, w2)
                                                | Inr ex \<Rightarrow> (Inr (), p1\<lparr>expiry := ex\<rparr>, w2))))))))"

text \<open>\<^verbatim>\<open>except Exception\<close>: every exception of the block is logged and followed by
  \<^verbatim>\<open>sys.exit()\<close>. \<^verbatim>\<open>SystemExit\<close> is no \<^verbatim>\<open>Exception\<close> and passes through.\<close>

definition okta_auth_token ::
  "OktaSSOConfig provider \<Rightarrow> okta_result world
     \<Rightarrow> (error + unit) \<times> OktaSSOConfig provider \<times> okta_result world" where
  "okta_auth_token p w =
     (case okta_try p w of
        (Inl (Raised _), p', w') \<Rightarrow> (Inl (SystemExit None), p', w')
      | (Inl (SystemExit c), p', w') \<Rightarrow> (Inl (SystemExit c), p', w')
      | (Inr u, p', w') \<Rightarrow> (Inr u, p', w'))"

definition okta_get_access_token ::
  "OktaSSOConfig provider \<Rightarrow> okta_result world \<Rightarrow> (OktaSSOConfig, okta_result) outcome" where
  "okta_get_access_token p w = return_fields (okta_auth_token p w)"

subsection \<open>AzureAuthenticationProvider\<close>

text \<open>
  The four settings are read from \<^verbatim>\<open>self.config\<close> itself. The exchange is
  \<^verbatim>\<open>acquire_token_for_client\<close> of the application built from the first three; it
  returns a dictionary. Only a \<^verbatim>\<open>KeyError\<close> of the two subscripts is caught, and
  followed by \<^verbatim>\<open>sys.exit(1)\<close>.
\<close>

definition azure_read_token ::
  "'sc provider \<Rightarrow> pyval \<Rightarrow> (error + unit) \<times> 'sc provider" where
  "azure_read_token p token =
     (case getitem token ''access_token'' of
        Inl e \<Rightarrow> (Inl e, p)
      | Inr tok \<Rightarrow>
          (let p1 = p\<lparr>generated_auth_token := tok\<rparr>
           in case getitem token ''expires_in'' of
                Inl e \<Rightarrow> (Inl e, p1)
              | Inr ex \<Rightarrow> (Inr (), p1\<lparr>expiry := ex\<rparr>)))"

definition azure_auth_token ::
  "'sc provider \<Rightarrow> pyval world \<Rightarrow> (error + unit) \<times> 'sc provider \<times> pyval world" where
  "azure_auth_token p w =
     (case getattr (config p) ''client_id'' of
        Inl e \<Rightarrow> (Inl e, p, w)
      | Inr client_id \<Rightarrow>
     (case getattr (config p) ''secret_key'' of
        Inl e \<Rightarrow> (Inl e, p, w)
      | Inr secret_key \<Rightarrow>
     (case getattr (config p) ''authority'' of
        Inl e \<Rightarrow> (Inl e, p, w)
      | Inr authority \<Rightarrow>
     (case getattr (config p) ''scopes'' of
        Inl e \<Rightarrow> (Inl e, p, w)
      | Inr scopes \<Rightarrow>
     (case exchange (MsalAcquireToken client_id secret_key authority scopes) w of
        (Inl e, w') \<Rightarrow> (Inl e, p, w')
      | (Inr token, w') \<Rightarrow>
          (case azure_read_token p token of
             (Inl (Raised (KeyError k)), p') \<Rightarrow> (Inl (SystemExit (Some 1)), p', w')
           | (Inl e, p') \<Rightarrow> (Inl e, p', w')
           | (Inr u, p') \<Rightarrow> (Inr u, p', w')))))))"

definition azure_get_access_token ::
  "'sc provider \<Rightarrow> pyval world \<Rightarrow> ('sc, pyval) outcome" where
  "azure_get_access_token p w = return_fields (azure_auth_token p w)"

subsection \<open>GoogleAuthenticationProvider\<close>

text \<open>
  \<^verbatim>\<open>IDTokenCredentials.from_service_account_file\<close>, at its interface: a file that does
  not exist raises \<^verbatim>\<open>FileNotFoundError\<close>, a file that is no service-account key raises
  \<^verbatim>\<open>ValueError\<close>. \<^verbatim>\<open>credentials.refresh\<close> is the exchange; it leaves
  \<^verbatim>\<open>credentials.token\<close> and \<^verbatim>\<open>credentials.expiry\<close>, the pair of the answer.
\<close>

definition from_service_account_file :: "'a world \<Rightarrow> string \<Rightarrow> error + string" where
  "from_service_account_file w filename =
     (case files w filename of
        None \<Rightarrow> Inl (Raised (FileNotFoundError filename))
      | Some content \<Rightarrow>
          (case import_key w content of None \<Rightarrow> Inl (Raised ValueError) | Some k \<Rightarrow> Inr k))"

definition google_auth_token ::
  "GoogleSSOConfig provider \<Rightarrow> (pyval \<times> pyval) world
     \<Rightarrow> (error + unit) \<times> GoogleSSOConfig provider \<times> (pyval \<times> pyval) world" where
  "google_auth_token p w =
     (let sc = security_config p
      in case from_service_account_file w (google_secretKey sc) of
           Inl e \<Rightarrow> (Inl e, p, w)
         | Inr credentials \<Rightarrow>
             (case exchange (GoogleRefresh credentials (google_audience sc)) w of
                (Inl e, w') \<Rightarrow> (Inl e, p, w')
              | (Inr (tok, ex), w') \<Rightarrow>
                  (Inr (), p\<lparr>generated_auth_token := tok, expiry := ex\<rparr>, w')))"

definition google_get_access_token ::
  "GoogleSSOConfig provider \<Rightarrow> (pyval \<times> pyval) world
     \<Rightarrow> (GoogleSSOConfig, pyval \<times> pyval) outcome" where
  "google_get_access_token p w = return_fields (google_auth_token p w)"

subsection \<open>Conditions on the world\<close>

text \<open>The decoded body \<^verbatim>\<open>{"access_token": t, "expires_in": e}\<close>, and the body of the
  testable properties, \<^verbatim>\<open>{"access_token":"abc","expires_in":3600}\<close>.\<close>

definition token_body :: "pyval \<Rightarrow> pyval \<Rightarrow> pyval" where
  "token_body t e = PyDict [(''access_token'', t), (''expires_in'', e)]"

definition success_body :: pyval where
  "success_body = token_body (PyStr ''abc'') (PyInt 3600)"

text \<open>The token endpoint answers the next HTTP request with a success whose body decodes
  to \<open>b\<close>.\<close>

definition http_success :: "response world \<Rightarrow> pyval \<Rightarrow> bool" where
  "http_success w b =
     (case replies w of
        Answers r # rs \<Rightarrow> ok r \<and> json_loads w (resp_text r) = Some b
      | _ \<Rightarrow> False)"

text \<open>The Okta provider's key loads and its assertion gets signed; the exchange then
  completes with no error and a body that decodes to \<open>b\<close>.\<close>

definition okta_signs :: "OktaSSOConfig provider \<Rightarrow> okta_result world \<Rightarrow> bool" where
  "okta_signs p w =
     (case get_PEM_JWK w (okta_privateKey (security_config p)) of
        Inl e \<Rightarrow> False
      | Inr my_jwk \<Rightarrow>
          jwt_encode w (fst (okta_new_claims (security_config p) w)) my_jwk JWT_HASH_ALGORITHM
            \<noteq> None)"

definition okta_answered :: "OktaSSOConfig provider \<Rightarrow> okta_result world \<Rightarrow> pyval \<Rightarrow> bool" where
  "okta_answered p w b =
     (okta_signs p w \<and>
      (case replies w of
         Answers r # rs \<Rightarrow> err r = None \<and> json_loads w (res_json r) = Some b
       | _ \<Rightarrow> False))"

text \<open>The server configuration itself has the four attributes the Azure provider reads;
  \<^verbatim>\<open>acquire_token_for_client\<close> then returns \<open>b\<close>.\<close>

definition azure_configured :: "'sc provider \<Rightarrow> bool" where
  "azure_configured p =
     (map_of (attributes (config p)) ''client_id'' \<noteq> None \<and>
      map_of (attributes (config p)) ''secret_key'' \<noteq> None \<and>
      map_of (attributes (config p)) ''authority'' \<noteq> None \<and>
      map_of (attributes (config p)) ''scopes'' \<noteq> None)"

definition azure_answered :: "'sc provider \<Rightarrow> pyval world \<Rightarrow> pyval \<Rightarrow> bool" where
  "azure_answered p w b =
     (azure_configured p \<and> (case replies w of Answers a # rs \<Rightarrow> a = b | _ \<Rightarrow> False))"

text \<open>The Google provider's key file loads; the refresh then leaves token \<open>t\<close> and
  expiry \<open>e\<close>.\<close>

definition google_key_loads :: "GoogleSSOConfig provider \<Rightarrow> 'a world \<Rightarrow> bool" where
  "google_key_loads p w =
     (case from_service_account_file w (google_secretKey (security_config p)) of
        Inl e \<Rightarrow> False
      | Inr k \<Rightarrow> True)"

definition google_refreshed ::
  "GoogleSSOConfig provider \<Rightarrow> (pyval \<times> pyval) world \<Rightarrow> pyval \<Rightarrow> pyval \<Rightarrow> bool" where
  "google_refreshed p w t e =
     (google_key_loads p w \<and> (case replies w of Answers a # rs \<Rightarrow> a = (t, e) | _ \<Rightarrow> False))"



subsection \<open>A mocked backend\<close>

text \<open>
  A world for concrete runs: one key file, a clock that advances by ten seconds with
  every reading, a random source, a decoder for the bodies used below, a signer that
  yields a string for every set of claims, and the given answers of the endpoint.
\<close>

definition mock_uuids :: random_source where
  "mock_uuids = Abs_random_source (\<lambda>n. replicate (Suc n) CHR ''u'')"

definition mock_json_loads :: "string \<Rightarrow> pyval option" where
  \<open>mock_json_loads =
     map_of [(''{"access_token":"abc","expires_in":3600}'', success_body),
             (''{"access_token":"xyz","expires_in":60}'', token_body (PyStr ''xyz'') (PyInt 60)),
             (''{"error":"invalid_client"}'', PyDict [(''error'', PyStr ''invalid_client'')]),
             (''{}'', PyDict [])]\<close>

definition mock_jwt_encode :: "(string \<times> pyval) list \<Rightarrow> string \<Rightarrow> string \<Rightarrow> string option" where
  "mock_jwt_encode claims my_jwk alg =
     (case map_of claims ''jti'' of Some (PyStr j) \<Rightarrow> Some (''signed-'' @ j) | _ \<Rightarrow> None)"

definition mock_world :: "'a reply list \<Rightarrow> 'a world" where
  "mock_world rs =
     \<lparr>replies = rs, sent = [],
      files = map_of [(''/keys/private.pem'', ''KEY MATERIAL'')],
      import_key = map_of [(''KEY MATERIAL'', ''KEY'')],
      time_source = (\<lambda>n. 1700000000 + 10 * int n),
      time_count = 0,
      uuid_source = mock_uuids,
      uuid_count = 0,
      json_loads = mock_json_loads,
      jwt_encode = mock_jwt_encode\<rparr>"

definition mock_google :: "string \<Rightarrow> GoogleSSOConfig provider" where
  "mock_google key_file =
     create \<lparr>securityConfig = \<lparr>google_secretKey = key_file, google_audience = ''aud''\<rparr>,
             attributes = []\<rparr>"

definition mock_okta :: "string \<Rightarrow> OktaSSOConfig provider" where
  "mock_okta key_file =
     create \<lparr>securityConfig =
               \<lparr>okta_clientId = ''client'', okta_orgURL = ''https://org.example/token'',
                okta_privateKey = key_file, okta_scopes = [''a'', ''b'']\<rparr>,
             attributes = []\<rparr>"

definition mock_auth0 :: "Auth0SSOConfig provider" where
  "mock_auth0 =
     create \<lparr>securityConfig =
               \<lparr>auth0_clientId = ''client'', auth0_secretKey = ''secret'',
                auth0_domain = ''tenant.example''\<rparr>,
             attributes = []\<rparr>"

definition mock_oidc :: "CustomOidcSSOConfig provider" where
  "mock_oidc =
     create \<lparr>securityConfig =
               \<lparr>oidc_clientId = ''client'', oidc_secretKey = ''secret'',
                oidc_tokenEndpoint = ''https://idp.example/token''\<rparr>,
             attributes = []\<rparr>"

text \<open>Two Azure instances: one whose server configuration carries the four settings
  itself, one that carries credentials under \<^verbatim>\<open>securityConfig\<close> only.\<close>

definition mock_azure :: "unit provider" where
  "mock_azure =
     create \<lparr>securityConfig = (),
             attributes = [(''client_id'', PyStr ''client''), (''secret_key'', PyStr ''secret''),
                           (''authority'', PyStr ''https://login.example/tenant''),
                           (''scopes'', PyList [PyStr ''api/.default''])]\<rparr>"

definition mock_azure_standard :: "CustomOidcSSOConfig provider" where
  "mock_azure_standard =
     create \<lparr>securityConfig =
               \<lparr>oidc_clientId = ''client'', oidc_secretKey = ''secret'',
                oidc_tokenEndpoint = ''https://login.example/tenant''\<rparr>,
             attributes = [(''hostPort'', PyStr ''http://localhost:8585/api''),
                           (''authProvider'', PyStr ''azure'')]\<rparr>"

definition response_200 :: "string \<Rightarrow> response" where
  "response_200 b = \<lparr>status_code = 200, resp_text = b\<rparr>"

definition response_400 :: "string \<Rightarrow> response" where
  "response_400 b = \<lparr>status_code = 400, resp_text = b\<rparr>"

section \<open>Properties\<close>

subsection \<open>The random source\<close>

lemma nth_uuid_eq_iff:
  "nth_uuid s m = nth_uuid s n \<longleftrightarrow> m = n"
  using Rep_random_source [of s] by (auto simp: nth_uuid_def dest: injD)

lemma nth_uuid_mock:
  "nth_uuid mock_uuids n = replicate (Suc n) CHR ''u''"
proof -
  have "inj (\<lambda>n. replicate (Suc n) CHR ''u'')"
    by (rule injI) (drule arg_cong [where f = length], simp)
  then show ?thesis
    by (simp add: nth_uuid_def mock_uuids_def Abs_random_source_inverse)
qed

subsection \<open>The no-op provider\<close>

text \<open>
  C4. For the no-op provider and any configuration, \<^verbatim>\<open>get_access_token\<close> returns the
  fixed pair \<^verbatim>\<open>("no_token", None)\<close>, and it leaves the provider and the world
  untouched: no exchange is performed.
\<close>

theorem noop_returns_sentinel:
  "noop_get_access_token p w = (Inr (PyStr ''no_token'', PyNone), p, w)"
  by (simp add: noop_get_access_token_def)

subsection \<open>One call against an endpoint that answers\<close>

lemma exchange_Answers:
  "replies w = Answers a # rs \<Longrightarrow>
   exchange rq w = (Inr a, w\<lparr>sent := sent w @ [rq], replies := rs\<rparr>)"
  by (simp add: exchange_def)

lemma oidc_answered:
  assumes "http_success w (token_body t e)"
  shows "oidc_get_access_token p w =
           (Inr (t, e), p\<lparr>generated_auth_token := t, expiry := e\<rparr>,
            w\<lparr>sent := sent w @ [RequestsPost (oidc_tokenEndpoint (security_config p))
                   [(''grant_type'', ''client_credentials''),
                    (''client_id'', oidc_clientId (security_config p)),
                    (''client_secret'', oidc_secretKey (security_config p))]],
              replies := tl (replies w)\<rparr>)"
proof -
  from assms obtain r rs where r: "replies w = Answers r # rs" "ok r"
      "json_loads w (resp_text r) = Some (token_body t e)"
    by (auto simp: http_success_def split: list.splits reply.splits)
  then show ?thesis
    by (simp add: oidc_get_access_token_def oidc_auth_token_def return_fields_def
        exchange_Answers loads_def Let_def token_body_def)
qed

lemma auth0_answered:
  assumes "http_success w (token_body t e)"
  shows "auth0_get_access_token p w =
           (Inr (t, e), p\<lparr>generated_auth_token := t, expiry := e\<rparr>,
            w\<lparr>sent := sent w @ [HTTPSConnectionRequest (auth0_domain (security_config p)) ''POST''
                   (''/'' @ auth0_domain (security_config p) @ ''/oauth/token'')
                   (auth0_payload (security_config p))
                   [(''content-type'', ''application/x-www-form-urlencoded'')]],
              replies := tl (replies w)\<rparr>)"
proof -
  from assms obtain r rs where r: "replies w = Answers r # rs"
      "json_loads w (resp_text r) = Some (token_body t e)"
    by (auto simp: http_success_def split: list.splits reply.splits)
  then show ?thesis
    by (simp add: auth0_get_access_token_def auth0_auth_token_def return_fields_def
        exchange_Answers loads_def Let_def token_body_def)
qed

lemma okta_success:
  assumes "get_PEM_JWK w (okta_privateKey (security_config p)) = Inr my_jwk"
    and "jwt_encode w (fst (okta_new_claims (security_config p) w)) my_jwk JWT_HASH_ALGORITHM
           = Some tok"
    and "replies w = Answers r # rs" and "err r = None"
    and "json_loads w (res_json r) = Some (PyDict d)"
    and "t = (case map_of d ''access_token'' of None \<Rightarrow> PyNone | Some v \<Rightarrow> v)"
    and "e = (case map_of d ''expires_in'' of None \<Rightarrow> PyNone | Some v \<Rightarrow> v)"
  shows "okta_get_access_token p w =
           (Inr (t, e), p\<lparr>generated_auth_token := t, expiry := e\<rparr>,
            w\<lparr>sent := sent w @ [OktaFireRequest ''POST''
                     (okta_orgURL (security_config p) @ ''?''
                        @ urlencode (okta_parameters (security_config p) tok))
                     [(''Accept'', ''application/json''),
                      (''Content-Type'', ''application/x-www-form-urlencoded'')]],
              replies := rs, uuid_count := Suc (uuid_count w),
              time_count := Suc (time_count w)\<rparr>)"
  using assms
  by (simp add: okta_get_access_token_def okta_auth_token_def okta_try_def return_fields_def
      okta_new_claims_def uuid4_def time_time_def exchange_Answers loads_def Let_def
      split: option.splits)

lemma okta_answered_dict:
  assumes "okta_answered p w (PyDict d)"
  shows "fst (okta_get_access_token p w) =
           Inr (case map_of d ''access_token'' of None \<Rightarrow> PyNone | Some v \<Rightarrow> v,
                case map_of d ''expires_in'' of None \<Rightarrow> PyNone | Some v \<Rightarrow> v)"
    and "replies (snd (snd (okta_get_access_token p w))) = tl (replies w)"
    and "length (sent (snd (snd (okta_get_access_token p w)))) = Suc (length (sent w))"
proof -
  from assms obtain r rs where r: "replies w = Answers r # rs" "err r = None"
      "json_loads w (res_json r) = Some (PyDict d)"
    by (auto simp: okta_answered_def split: list.splits reply.splits)
  from assms obtain my_jwk tok where k:
      "get_PEM_JWK w (okta_privateKey (security_config p)) = Inr my_jwk"
      "jwt_encode w (fst (okta_new_claims (security_config p) w)) my_jwk JWT_HASH_ALGORITHM = Some tok"
    by (auto simp: okta_answered_def okta_signs_def split: sum.splits)
  note eq = okta_success [OF k r refl refl]
  show "fst (okta_get_access_token p w) =
           Inr (case map_of d ''access_token'' of None \<Rightarrow> PyNone | Some v \<Rightarrow> v,
                case map_of d ''expires_in'' of None \<Rightarrow> PyNone | Some v \<Rightarrow> v)"
    by (simp add: eq)
  show "replies (snd (snd (okta_get_access_token p w))) = tl (replies w)"
    by (simp add: eq r)
  show "length (sent (snd (snd (okta_get_access_token p w)))) = Suc (length (sent w))"
    by (simp add: eq)
qed

lemma okta_answered_token:
  assumes "okta_answered p w (token_body t e)"
  shows "fst (okta_get_access_token p w) = Inr (t, e)"
    and "replies (snd (snd (okta_get_access_token p w))) = tl (replies w)"
    and "length (sent (snd (snd (okta_get_access_token p w)))) = Suc (length (sent w))"
  using okta_answered_dict [of p w "[(''access_token'', t), (''expires_in'', e)]"] assms
  by (simp_all add: token_body_def)

lemma azure_answered_token:
  assumes "azure_answered p w (token_body t e)"
  shows "fst (azure_get_access_token p w) = Inr (t, e)"
    and "replies (snd (snd (azure_get_access_token p w))) = tl (replies w)"
    and "length (sent (snd (snd (azure_get_access_token p w)))) = Suc (length (sent w))"
proof -
  from assms obtain rs where r: "replies w = Answers (token_body t e) # rs"
    by (auto simp: azure_answered_def split: list.splits reply.splits)
  from assms obtain a1 a2 a3 a4 where a:
      "map_of (attributes (config p)) ''client_id'' = Some a1"
      "map_of (attributes (config p)) ''secret_key'' = Some a2"
      "map_of (attributes (config p)) ''authority'' = Some a3"
      "map_of (attributes (config p)) ''scopes'' = Some a4"
    by (auto simp: azure_answered_def azure_configured_def)
  from r a have eq: "azure_get_access_token p w =
           (Inr (t, e), p\<lparr>generated_auth_token := t, expiry := e\<rparr>,
            w\<lparr>sent := sent w @ [MsalAcquireToken a1 a2 a3 a4], replies := rs\<rparr>)"
    by (simp add: azure_get_access_token_def azure_auth_token_def azure_read_token_def
        return_fields_def getattr_def exchange_Answers Let_def token_body_def)
  show "fst (azure_get_access_token p w) = Inr (t, e)"
    and "replies (snd (snd (azure_get_access_token p w))) = tl (replies w)"
    and "length (sent (snd (snd (azure_get_access_token p w)))) = Suc (length (sent w))"
    by (simp_all add: eq r)
qed

lemma google_refreshed_token:
  assumes "google_refreshed p w t e"
  shows "fst (google_get_access_token p w) = Inr (t, e)"
    and "replies (snd (snd (google_get_access_token p w))) = tl (replies w)"
    and "length (sent (snd (snd (google_get_access_token p w)))) = Suc (length (sent w))"
proof -
  from assms obtain rs where r: "replies w = Answers (t, e) # rs"
    by (auto simp: google_refreshed_def split: list.splits reply.splits)
  from assms obtain k where k:
      "from_service_account_file w (google_secretKey (security_config p)) = Inr k"
    by (auto simp: google_refreshed_def google_key_loads_def split: sum.splits)
  from r k have eq: "google_get_access_token p w =
           (Inr (t, e), p\<lparr>generated_auth_token := t, expiry := e\<rparr>,
            w\<lparr>sent := sent w @ [GoogleRefresh k (google_audience (security_config p))],
              replies := rs\<rparr>)"
    by (simp add: google_get_access_token_def google_auth_token_def
        return_fields_def exchange_Answers Let_def)
  show "fst (google_get_access_token p w) = Inr (t, e)"
    and "replies (snd (snd (google_get_access_token p w))) = tl (replies w)"
    and "length (sent (snd (snd (google_get_access_token p w)))) = Suc (length (sent w))"
    by (simp_all add: eq r)
qed


text \<open>The mocked backend meets the conditions: the key file loads and every assertion
  gets signed.\<close>

lemma mock_okta_signs:
  "okta_signs (mock_okta ''/keys/private.pem'') (mock_world rs)"
  by (simp add: okta_signs_def mock_okta_def mock_world_def create_def security_config_def
      get_PEM_JWK_def okta_new_claims_def uuid4_def time_time_def nth_uuid_mock okta_claims_def mock_jwt_encode_def
      Let_def)


subsection \<open>Two calls in sequence\<close>

text \<open>
  C7. Every call performs its own exchange: when the endpoint answers the first call with
  one token and expiry and, in the world the first call leaves, answers the second call
  with another, the first call returns the first pair and the second call, made on the
  instance as the first call left it, returns the second pair. Each call takes exactly
  the endpoint's next answer; nothing of the first result reaches the second.
\<close>

theorem consecutive_calls_reflect_own_response:
  assumes "http_success wo (token_body t1 e1)"
    and "http_success (world_after (oidc_get_access_token po wo)) (token_body t2 e2)"
    and "http_success wa (token_body t1 e1)"
    and "http_success (world_after (auth0_get_access_token pa wa)) (token_body t2 e2)"
    and "okta_answered pk wk (token_body t1 e1)"
    and "okta_answered (provider_after (okta_get_access_token pk wk))
           (world_after (okta_get_access_token pk wk)) (token_body t2 e2)"
    and "azure_answered pz wz (token_body t1 e1)"
    and "azure_answered (provider_after (azure_get_access_token pz wz))
           (world_after (azure_get_access_token pz wz)) (token_body t2 e2)"
    and "google_refreshed pg wg t1 e1"
    and "google_refreshed (provider_after (google_get_access_token pg wg))
           (world_after (google_get_access_token pg wg)) t2 e2"
  shows "fst (oidc_get_access_token po wo) = Inr (t1, e1) \<and>
         fst (oidc_get_access_token (provider_after (oidc_get_access_token po wo))
                (world_after (oidc_get_access_token po wo))) = Inr (t2, e2) \<and>
         replies (world_after (oidc_get_access_token po wo)) = tl (replies wo) \<and>
         fst (auth0_get_access_token pa wa) = Inr (t1, e1) \<and>
         fst (auth0_get_access_token (provider_after (auth0_get_access_token pa wa))
                (world_after (auth0_get_access_token pa wa))) = Inr (t2, e2) \<and>
         replies (world_after (auth0_get_access_token pa wa)) = tl (replies wa) \<and>
         fst (okta_get_access_token pk wk) = Inr (t1, e1) \<and>
         fst (okta_get_access_token (provider_after (okta_get_access_token pk wk))
                (world_after (okta_get_access_token pk wk))) = Inr (t2, e2) \<and>
         replies (world_after (okta_get_access_token pk wk)) = tl (replies wk) \<and>
         fst (azure_get_access_token pz wz) = Inr (t1, e1) \<and>
         fst (azure_get_access_token (provider_after (azure_get_access_token pz wz))
                (world_after (azure_get_access_token pz wz))) = Inr (t2, e2) \<and>
         replies (world_after (azure_get_access_token pz wz)) = tl (replies wz) \<and>
         fst (google_get_access_token pg wg) = Inr (t1, e1) \<and>
         fst (google_get_access_token (provider_after (google_get_access_token pg wg))
                (world_after (google_get_access_token pg wg))) = Inr (t2, e2) \<and>
         replies (world_after (google_get_access_token pg wg)) = tl (replies wg)"
proof -
  have oidc: "fst (oidc_get_access_token po wo) = Inr (t1, e1)"
      "fst (oidc_get_access_token (provider_after (oidc_get_access_token po wo))
                (world_after (oidc_get_access_token po wo))) = Inr (t2, e2)"
      "replies (world_after (oidc_get_access_token po wo)) = tl (replies wo)"
    using oidc_answered [OF assms(1)] oidc_answered [OF assms(2)] by simp_all
  have auth0: "fst (auth0_get_access_token pa wa) = Inr (t1, e1)"
      "fst (auth0_get_access_token (provider_after (auth0_get_access_token pa wa))
                (world_after (auth0_get_access_token pa wa))) = Inr (t2, e2)"
      "replies (world_after (auth0_get_access_token pa wa)) = tl (replies wa)"
    using auth0_answered [OF assms(3)] auth0_answered [OF assms(4)] by simp_all
  note okta = okta_answered_token(1,2) [OF assms(5)] okta_answered_token(1) [OF assms(6)]
  note azure = azure_answered_token(1,2) [OF assms(7)] azure_answered_token(1) [OF assms(8)]
  note google = google_refreshed_token(1,2) [OF assms(9)] google_refreshed_token(1) [OF assms(10)]
  show ?thesis
    using oidc auth0 okta azure google by simp
qed

theorem consecutive_calls_witness:
  \<open>fst (oidc_get_access_token mock_oidc
          (mock_world [Answers (response_200 ''{"access_token":"abc","expires_in":3600}''),
                       Answers (response_200 ''{"access_token":"xyz","expires_in":60}'')]))
     = Inr (PyStr ''abc'', PyInt 3600) \<and>
   fst (oidc_get_access_token
          (provider_after (oidc_get_access_token mock_oidc
             (mock_world [Answers (response_200 ''{"access_token":"abc","expires_in":3600}''),
                          Answers (response_200 ''{"access_token":"xyz","expires_in":60}'')])))
          (world_after (oidc_get_access_token mock_oidc
             (mock_world [Answers (response_200 ''{"access_token":"abc","expires_in":3600}''),
                          Answers (response_200 ''{"access_token":"xyz","expires_in":60}'')]))))
     = Inr (PyStr ''xyz'', PyInt 60) \<and>
   fst (google_get_access_token
          (provider_after (google_get_access_token (mock_google ''/keys/private.pem'')
             (mock_world [Answers (PyStr ''abc'', PyInt 3600), Answers (PyStr ''xyz'', PyInt 60)])))
          (world_after (google_get_access_token (mock_google ''/keys/private.pem'')
             (mock_world [Answers (PyStr ''abc'', PyInt 3600), Answers (PyStr ''xyz'', PyInt 60)]))))
     = Inr (PyStr ''xyz'', PyInt 60)\<close>
proof -
  let ?b1 = \<open>''{"access_token":"abc","expires_in":3600}''\<close>
  let ?b2 = \<open>''{"access_token":"xyz","expires_in":60}''\<close>
  let ?t1 = "PyStr ''abc''" and ?e1 = "PyInt 3600" and ?t2 = "PyStr ''xyz''" and ?e2 = "PyInt 60"
  let ?wh = "mock_world [Answers (response_200 ?b1), Answers (response_200 ?b2)]"
  let ?wk = "mock_world [Answers \<lparr>res_json = ?b1, err = None\<rparr>, Answers \<lparr>res_json = ?b2, err = None\<rparr>]"
  let ?wz = "mock_world [Answers (token_body ?t1 ?e1), Answers (token_body ?t2 ?e2)]"
  let ?wg = "mock_world [Answers (?t1, ?e1), Answers (?t2, ?e2)]"
  let ?pk = "mock_okta ''/keys/private.pem''"
  let ?pg = "mock_google ''/keys/private.pem''"
  have h1: "http_success ?wh (token_body ?t1 ?e1)"
    by (simp add: http_success_def mock_world_def response_200_def ok_def mock_json_loads_def
        success_body_def)
  have h2: "http_success (world_after (oidc_get_access_token mock_oidc ?wh)) (token_body ?t2 ?e2)"
    by (simp add: oidc_answered [OF h1])
       (simp add: http_success_def mock_world_def response_200_def ok_def mock_json_loads_def)
  have h4: "http_success (world_after (auth0_get_access_token mock_auth0 ?wh)) (token_body ?t2 ?e2)"
    by (simp add: auth0_answered [OF h1])
       (simp add: http_success_def mock_world_def response_200_def ok_def mock_json_loads_def)
  have k1: "okta_answered ?pk ?wk (token_body ?t1 ?e1)"
    unfolding okta_answered_def
    by (simp add: mock_okta_signs) (simp add: mock_world_def mock_json_loads_def success_body_def)
  have keq: "okta_get_access_token ?pk ?wk =
      (Inr (?t1, ?e1), ?pk\<lparr>generated_auth_token := ?t1, expiry := ?e1\<rparr>,
       ?wk\<lparr>sent := sent ?wk @ [OktaFireRequest ''POST''
                     (okta_orgURL (security_config ?pk) @ ''?''
                        @ urlencode (okta_parameters (security_config ?pk) ''signed-u''))
                     [(''Accept'', ''application/json''),
                      (''Content-Type'', ''application/x-www-form-urlencoded'')]],
              replies := [Answers \<lparr>res_json = ?b2, err = None\<rparr>], uuid_count := Suc (uuid_count ?wk),
              time_count := Suc (time_count ?wk)\<rparr>)"
    by (rule okta_success [where my_jwk = "''KEY''" and tok = "''signed-u''"
          and r = "\<lparr>res_json = ?b1, err = None\<rparr>"
          and rs = "[Answers \<lparr>res_json = ?b2, err = None\<rparr>]"
          and d = "[(''access_token'', ?t1), (''expires_in'', ?e1)]"])
       (simp_all add: mock_okta_def mock_world_def create_def security_config_def
          get_PEM_JWK_def okta_new_claims_def uuid4_def time_time_def nth_uuid_mock okta_claims_def mock_jwt_encode_def
          mock_json_loads_def success_body_def token_body_def Let_def)
  have k2: "okta_answered (provider_after (okta_get_access_token ?pk ?wk))
      (world_after (okta_get_access_token ?pk ?wk)) (token_body ?t2 ?e2)"
    by (simp add: keq)
       (simp add: okta_answered_def okta_signs_def mock_okta_def mock_world_def create_def
          security_config_def get_PEM_JWK_def okta_new_claims_def uuid4_def time_time_def nth_uuid_mock okta_claims_def
          mock_jwt_encode_def mock_json_loads_def Let_def)
  have z1: "azure_answered mock_azure ?wz (token_body ?t1 ?e1)"
    by (simp add: azure_answered_def azure_configured_def mock_azure_def create_def
        mock_world_def)
  have zeq: "azure_get_access_token mock_azure ?wz =
      (Inr (?t1, ?e1), mock_azure\<lparr>generated_auth_token := ?t1, expiry := ?e1\<rparr>,
       ?wz\<lparr>sent := [MsalAcquireToken (PyStr ''client'') (PyStr ''secret'')
                          (PyStr ''https://login.example/tenant'') (PyList [PyStr ''api/.default''])],
            replies := [Answers (token_body ?t2 ?e2)]\<rparr>)"
    by (simp add: azure_get_access_token_def azure_auth_token_def azure_read_token_def
        return_fields_def getattr_def exchange_def Let_def token_body_def mock_azure_def
        create_def mock_world_def)
  have z2: "azure_answered (provider_after (azure_get_access_token mock_azure ?wz))
      (world_after (azure_get_access_token mock_azure ?wz)) (token_body ?t2 ?e2)"
    by (simp add: zeq)
       (simp add: azure_answered_def azure_configured_def mock_azure_def create_def
          mock_world_def)
  have g1: "google_refreshed ?pg ?wg ?t1 ?e1"
    by (simp add: google_refreshed_def google_key_loads_def from_service_account_file_def
        mock_google_def create_def security_config_def mock_world_def)
  have geq: "google_get_access_token ?pg ?wg =
      (Inr (?t1, ?e1), ?pg\<lparr>generated_auth_token := ?t1, expiry := ?e1\<rparr>,
       ?wg\<lparr>sent := [GoogleRefresh ''KEY'' ''aud''], replies := [Answers (?t2, ?e2)]\<rparr>)"
    by (simp add: google_get_access_token_def google_auth_token_def from_service_account_file_def
        return_fields_def exchange_def Let_def mock_google_def create_def security_config_def
        mock_world_def)
  have g2: "google_refreshed (provider_after (google_get_access_token ?pg ?wg))
      (world_after (google_get_access_token ?pg ?wg)) ?t2 ?e2"
    by (simp add: geq)
       (simp add: google_refreshed_def google_key_loads_def from_service_account_file_def
          mock_google_def create_def security_config_def mock_world_def)
  show ?thesis
    using consecutive_calls_reflect_own_response [OF h1 h2 h1 h4 k1 k2 z1 z2 g1 g2]
    by simp
qed

subsection \<open>The Auth0 request\<close>

lemma auth0_sends:
  "sent (world_after (auth0_get_access_token p w)) =
     sent w @ [HTTPSConnectionRequest (auth0_domain (security_config p)) ''POST''
                 (''/'' @ auth0_domain (security_config p) @ ''/oauth/token'')
                 (auth0_payload (security_config p))
                 [(''content-type'', ''application/x-www-form-urlencoded'')]]"
  by (simp add: auth0_get_access_token_def auth0_auth_token_def return_fields_def exchange_def
      Let_def split: list.splits reply.splits sum.splits prod.splits)

text \<open>
  C8. The Auth0 provider sends one POST over an HTTPS connection to the configured
  domain, at the path \<^verbatim>\<open>/<domain>/oauth/token\<close>, with the form body
  \<^verbatim>\<open>grant_type=client_credentials&client_id=<clientId>&client_secret=<secretKey>&audience=https://<domain>/api/v2/\<close>,
  and returns the \<^verbatim>\<open>access_token\<close> and \<^verbatim>\<open>expires_in\<close> of the decoded response body.
\<close>

theorem auth0_posts_form_and_parses_body:
  assumes "replies w = Answers r # rs"
    and "json_loads w (resp_text r) = Some (PyDict d)"
    and "map_of d ''access_token'' = Some t"
    and "map_of d ''expires_in'' = Some e"
  shows "sent (world_after (auth0_get_access_token p w)) =
           sent w @ [HTTPSConnectionRequest (auth0_domain (security_config p)) ''POST''
                       (''/'' @ auth0_domain (security_config p) @ ''/oauth/token'')
                       (''grant_type=client_credentials&client_id='' @ auth0_clientId (security_config p)
                          @ ''&client_secret='' @ auth0_secretKey (security_config p)
                          @ ''&audience=https://'' @ auth0_domain (security_config p) @ ''/api/v2/'')
                       [(''content-type'', ''application/x-www-form-urlencoded'')]] \<and>
         fst (auth0_get_access_token p w) = Inr (t, e)"
proof -
  have "fst (auth0_get_access_token p w) = Inr (t, e)"
    using assms
    by (simp add: auth0_get_access_token_def auth0_auth_token_def return_fields_def
        exchange_Answers loads_def Let_def)
  then show ?thesis
    by (simp add: auth0_sends auth0_payload_def)
qed

theorem auth0_posts_form_witness:
  \<open>sent (world_after (auth0_get_access_token mock_auth0
       (mock_world [Answers (response_200 ''{"access_token":"abc","expires_in":3600}'')]))) =
     [HTTPSConnectionRequest ''tenant.example'' ''POST'' ''/tenant.example/oauth/token''
        ''grant_type=client_credentials&client_id=client&client_secret=secret&audience=https://tenant.example/api/v2/''
        [(''content-type'', ''application/x-www-form-urlencoded'')]] \<and>
   fst (auth0_get_access_token mock_auth0
       (mock_world [Answers (response_200 ''{"access_token":"abc","expires_in":3600}'')])) =
     Inr (PyStr ''abc'', PyInt 3600)\<close>
  using auth0_posts_form_and_parses_body [of
      \<open>mock_world [Answers (response_200 ''{"access_token":"abc","expires_in":3600}'')]\<close>
      \<open>response_200 ''{"access_token":"abc","expires_in":3600}''\<close> "[]"
      "[(''access_token'', PyStr ''abc''), (''expires_in'', PyInt 3600)]"
      "PyStr ''abc''" "PyInt 3600" mock_auth0]
  by (simp add: mock_world_def response_200_def mock_json_loads_def success_body_def
      token_body_def mock_auth0_def create_def security_config_def)

subsection \<open>Okta: fields missing from the response\<close>

text \<open>
  C9. When the Okta exchange completes with no error, a decoded body that lacks
  \<^verbatim>\<open>access_token\<close> or \<^verbatim>\<open>expires_in\<close> raises nothing: \<^verbatim>\<open>get_access_token\<close> returns
  \<^verbatim>\<open>None\<close> in place of each missing field.
\<close>

theorem okta_missing_fields_become_none:
  assumes "okta_answered p w (PyDict d)"
  shows "fst (okta_get_access_token p w) =
           Inr (case map_of d ''access_token'' of None \<Rightarrow> PyNone | Some v \<Rightarrow> v,
                case map_of d ''expires_in'' of None \<Rightarrow> PyNone | Some v \<Rightarrow> v)"
  using assms by (rule okta_answered_dict(1))

theorem okta_missing_fields_witness:
  \<open>fst (okta_get_access_token (mock_okta ''/keys/private.pem'')
          (mock_world [Answers \<lparr>res_json = ''{"error":"invalid_client"}'', err = None\<rparr>]))
     = Inr (PyNone, PyNone)\<close>
proof -
  have \<open>okta_answered (mock_okta ''/keys/private.pem'')
          (mock_world [Answers \<lparr>res_json = ''{"error":"invalid_client"}'', err = None\<rparr>])
          (PyDict [(''error'', PyStr ''invalid_client'')])\<close>
    unfolding okta_answered_def
    by (simp add: mock_okta_signs) (simp add: mock_world_def mock_json_loads_def)
  from okta_missing_fields_become_none [OF this] show ?thesis by simp
qed

subsection \<open>Azure: where the settings are read\<close>

lemma azure_ignores_securityConfig:
  "fst (azure_get_access_token (p\<lparr>config := (config p)\<lparr>securityConfig := s\<rparr>\<rparr>) w) =
   fst (azure_get_access_token p w)"
  by (simp add: azure_get_access_token_def azure_auth_token_def azure_read_token_def
      return_fields_def getattr_def Let_def
      split: option.splits sum.splits prod.splits error.splits exn.splits)

text \<open>
  C10. The Azure provider reads \<^verbatim>\<open>client_id\<close>, \<^verbatim>\<open>secret_key\<close>, \<^verbatim>\<open>authority\<close> and
  \<^verbatim>\<open>scopes\<close> from the server configuration itself; what \<^verbatim>\<open>securityConfig\<close> holds has
  no influence on the outcome. For a server configuration that lacks one of the four
  attributes, \<^verbatim>\<open>get_access_token\<close> raises \<^verbatim>\<open>AttributeError\<close> and no request is made:
  provider and world are unchanged.
\<close>

theorem azure_reads_server_config:
  assumes "\<not> azure_configured p"
  shows "(\<exists>name. azure_get_access_token p w = (Inl (Raised (AttributeError name)), p, w)) \<and>
         fst (azure_get_access_token (p\<lparr>config := (config p)\<lparr>securityConfig := s\<rparr>\<rparr>) w) =
           fst (azure_get_access_token p w)"
proof -
  have "\<exists>name. azure_get_access_token p w = (Inl (Raised (AttributeError name)), p, w)"
    using assms
    by (auto simp: azure_configured_def azure_get_access_token_def azure_auth_token_def
        return_fields_def getattr_def split: option.splits)
  then show ?thesis
    by (simp add: azure_ignores_securityConfig)
qed

theorem azure_reads_server_config_witness:
  "azure_get_access_token mock_azure_standard (mock_world [Answers success_body]) =
     (Inl (Raised (AttributeError ''client_id'')), mock_azure_standard,
      mock_world [Answers success_body])"
proof -
  have "\<not> azure_configured mock_azure_standard"
    by (simp add: azure_configured_def mock_azure_standard_def create_def)
  from azure_reads_server_config [OF this, of "mock_world [Answers success_body]"]
  show ?thesis
    by (simp add: azure_get_access_token_def azure_auth_token_def return_fields_def getattr_def
        mock_azure_standard_def create_def)
qed

subsection \<open>Okta: the claims of the assertion\<close>

lemma okta_new_claims_eq:
  "fst (okta_new_claims sc w) =
     okta_claims sc (time_source w (time_count w)) (time_source w (time_count w) + 3600)
       (nth_uuid (uuid_source w) (uuid_count w))"
  by (simp add: okta_new_claims_def uuid4_def time_time_def JWT_ONE_HOUR_def Let_def)

lemma okta_try_keeps_world:
  "files (world_after (okta_try p w)) = files w"
  "import_key (world_after (okta_try p w)) = import_key w"
  "jwt_encode (world_after (okta_try p w)) = jwt_encode w"
  "uuid_source (world_after (okta_try p w)) = uuid_source w"
  "time_source (world_after (okta_try p w)) = time_source w"
  "config (provider_after (okta_try p w)) = config p"
  by (simp_all add: okta_try_def okta_new_claims_def uuid4_def time_time_def exchange_def
      loads_def Let_def
      split: option.splits sum.splits list.splits reply.splits prod.splits)

lemma okta_try_draws:
  assumes "get_PEM_JWK w (okta_privateKey (security_config p)) = Inr my_jwk"
  shows "uuid_count (world_after (okta_try p w)) = Suc (uuid_count w)"
    and "time_count (world_after (okta_try p w)) = Suc (time_count w)"
  using assms
  by (simp_all add: okta_try_def okta_new_claims_def uuid4_def time_time_def exchange_def
      loads_def Let_def
      split: option.splits sum.splits list.splits reply.splits prod.splits)

lemma okta_call_after_try:
  "world_after (okta_get_access_token p w) = world_after (okta_try p w)"
  "config (provider_after (okta_get_access_token p w)) = config (provider_after (okta_try p w))"
  by (simp_all add: okta_get_access_token_def okta_auth_token_def return_fields_def
      split: prod.splits sum.splits error.splits)

lemma okta_call_keeps_world:
  "files (world_after (okta_get_access_token p w)) = files w"
  "import_key (world_after (okta_get_access_token p w)) = import_key w"
  "jwt_encode (world_after (okta_get_access_token p w)) = jwt_encode w"
  "uuid_source (world_after (okta_get_access_token p w)) = uuid_source w"
  "time_source (world_after (okta_get_access_token p w)) = time_source w"
  "security_config (provider_after (okta_get_access_token p w)) = security_config p"
  by (simp_all add: okta_call_after_try okta_try_keeps_world security_config_def)

lemma okta_call_draws:
  assumes "get_PEM_JWK w (okta_privateKey (security_config p)) = Inr my_jwk"
  shows "uuid_count (world_after (okta_get_access_token p w)) = Suc (uuid_count w)"
    and "time_count (world_after (okta_get_access_token p w)) = Suc (time_count w)"
  using okta_try_draws [OF assms] by (simp_all add: okta_call_after_try)

lemma okta_sends_assertion:
  assumes "get_PEM_JWK w (okta_privateKey (security_config p)) = Inr my_jwk"
    and "jwt_encode w (fst (okta_new_claims (security_config p) w)) my_jwk JWT_HASH_ALGORITHM
           = Some tok"
  shows "sent (world_after (okta_get_access_token p w)) =
           sent w @ [OktaFireRequest ''POST''
                       (okta_orgURL (security_config p) @ ''?''
                          @ urlencode (okta_parameters (security_config p) tok))
                       [(''Accept'', ''application/json''),
                        (''Content-Type'', ''application/x-www-form-urlencoded'')]]"
  using assms
  by (simp add: okta_get_access_token_def okta_auth_token_def return_fields_def
      okta_try_def okta_new_claims_def uuid4_def time_time_def exchange_def loads_def Let_def
      split: option.splits sum.splits list.splits reply.splits prod.splits error.splits)

lemma okta_signs_key:
  assumes "okta_signs p w"
  obtains my_jwk tok where
    "get_PEM_JWK w (okta_privateKey (security_config p)) = Inr my_jwk"
    "jwt_encode w (fst (okta_new_claims (security_config p) w)) my_jwk JWT_HASH_ALGORITHM
       = Some tok"
  using assms by (auto simp: okta_signs_def split: sum.splits)

text \<open>
  C5. Take two consecutive calls of the Okta provider, the first of which returns. The
  assertion of each call carries \<^verbatim>\<open>sub\<close> and \<^verbatim>\<open>iss\<close> equal to the configured client id,
  \<^verbatim>\<open>aud\<close> equal to the organization URL, \<^verbatim>\<open>iat\<close> the time the call reads from the clock
  and \<^verbatim>\<open>exp\<close> exactly 3600 seconds later, and as \<^verbatim>\<open>jti\<close> the identifier the call draws
  from \<^verbatim>\<open>uuid4\<close>; the \<^verbatim>\<open>jti\<close> of the second call differs from that of the first. The two
  requests sent carry, as \<^verbatim>\<open>client_assertion\<close>, the signatures of these two sets of
  claims.
\<close>

theorem okta_assertion_claims:
  assumes "okta_answered p w (PyDict d)"
    and "okta_signs (provider_after (okta_get_access_token p w))
           (world_after (okta_get_access_token p w))"
  shows "(let sc = security_config p;
              first = okta_get_access_token p w;
              second = okta_get_access_token (provider_after first) (world_after first);
              claims1 = fst (okta_new_claims sc w);
              claims2 = fst (okta_new_claims sc (world_after first));
              request = (\<lambda>tok. OktaFireRequest ''POST''
                           (okta_orgURL sc @ ''?'' @ urlencode
                              [(''grant_type'', ''client_credentials''),
                               (''scope'', join '' '' (okta_scopes sc)),
                               (''client_assertion_type'',
                                ''urn:ietf:params:oauth:client-assertion-type:jwt-bearer''),
                               (''client_assertion'', tok)])
                           [(''Accept'', ''application/json''),
                            (''Content-Type'', ''application/x-www-form-urlencoded'')])
          in map_of claims1 ''sub'' = Some (PyStr (okta_clientId sc)) \<and>
             map_of claims1 ''iss'' = Some (PyStr (okta_clientId sc)) \<and>
             map_of claims1 ''aud'' = Some (PyStr (okta_orgURL sc)) \<and>
             map_of claims1 ''iat'' = Some (PyInt (time_source w (time_count w))) \<and>
             map_of claims1 ''exp'' = Some (PyInt (time_source w (time_count w) + 3600)) \<and>
             map_of claims1 ''jti'' = Some (PyStr (nth_uuid (uuid_source w) (uuid_count w))) \<and>
             map_of claims2 ''sub'' = Some (PyStr (okta_clientId sc)) \<and>
             map_of claims2 ''iss'' = Some (PyStr (okta_clientId sc)) \<and>
             map_of claims2 ''aud'' = Some (PyStr (okta_orgURL sc)) \<and>
             map_of claims2 ''iat'' = Some (PyInt (time_source w (Suc (time_count w)))) \<and>
             map_of claims2 ''exp'' = Some (PyInt (time_source w (Suc (time_count w)) + 3600)) \<and>
             map_of claims2 ''jti''
               = Some (PyStr (nth_uuid (uuid_source w) (Suc (uuid_count w)))) \<and>
             map_of claims1 ''jti'' \<noteq> map_of claims2 ''jti'' \<and>
             fst first = Inr (case map_of d ''access_token'' of None \<Rightarrow> PyNone | Some v \<Rightarrow> v,
                              case map_of d ''expires_in'' of None \<Rightarrow> PyNone | Some v \<Rightarrow> v) \<and>
             (\<exists>my_jwk tok1 tok2.
                jwt_encode w claims1 my_jwk JWT_HASH_ALGORITHM = Some tok1 \<and>
                jwt_encode w claims2 my_jwk JWT_HASH_ALGORITHM = Some tok2 \<and>
                sent (world_after second) = sent w @ [request tok1, request tok2]))"
proof -
  let ?first = "okta_get_access_token p w"
  let ?p1 = "provider_after ?first" and ?w1 = "world_after ?first"
  from assms(1) have signs: "okta_signs p w"
    by (simp add: okta_answered_def)
  from signs obtain my_jwk tok1 where k1:
      "get_PEM_JWK w (okta_privateKey (security_config p)) = Inr my_jwk"
      "jwt_encode w (fst (okta_new_claims (security_config p) w)) my_jwk JWT_HASH_ALGORITHM
         = Some tok1"
    by (rule okta_signs_key)
  from assms(2) obtain my_jwk' tok2 where k2:
      "get_PEM_JWK ?w1 (okta_privateKey (security_config ?p1)) = Inr my_jwk'"
      "jwt_encode ?w1 (fst (okta_new_claims (security_config ?p1) ?w1)) my_jwk'
         JWT_HASH_ALGORITHM = Some tok2"
    by (rule okta_signs_key)
  note keeps = okta_call_keeps_world [of p w]
  note draws = okta_call_draws [OF k1(1)]
  have same_key: "my_jwk' = my_jwk"
    using k1(1) k2(1) by (simp add: get_PEM_JWK_def keeps)
  have sent1: "sent ?w1 = sent w @ [OktaFireRequest ''POST''
                       (okta_orgURL (security_config p) @ ''?''
                          @ urlencode (okta_parameters (security_config p) tok1))
                       [(''Accept'', ''application/json''),
                        (''Content-Type'', ''application/x-www-form-urlencoded'')]]"
    by (rule okta_sends_assertion [OF k1])
  have sent2: "sent (world_after (okta_get_access_token ?p1 ?w1)) =
      sent ?w1 @ [OktaFireRequest ''POST''
                       (okta_orgURL (security_config p) @ ''?''
                          @ urlencode (okta_parameters (security_config p) tok2))
                       [(''Accept'', ''application/json''),
                        (''Content-Type'', ''application/x-www-form-urlencoded'')]]"
    using okta_sends_assertion [OF k2] by (simp add: keeps)
  have enc2: "jwt_encode w (fst (okta_new_claims (security_config p) ?w1)) my_jwk
      JWT_HASH_ALGORITHM = Some tok2"
    using k2(2) by (simp add: keeps same_key)
  have claims2: "fst (okta_new_claims (security_config p) ?w1) =
      okta_claims (security_config p) (time_source w (Suc (time_count w)))
        (time_source w (Suc (time_count w)) + 3600)
        (nth_uuid (uuid_source w) (Suc (uuid_count w)))"
    by (simp add: okta_new_claims_eq keeps draws)
  have requests: "\<exists>my_jwk tok1 tok2.
      jwt_encode w (fst (okta_new_claims (security_config p) w)) my_jwk JWT_HASH_ALGORITHM
        = Some tok1 \<and>
      jwt_encode w (fst (okta_new_claims (security_config p) ?w1)) my_jwk JWT_HASH_ALGORITHM
        = Some tok2 \<and>
      sent (world_after (okta_get_access_token ?p1 ?w1)) =
        sent w @ [OktaFireRequest ''POST''
                       (okta_orgURL (security_config p) @ ''?''
                          @ urlencode (okta_parameters (security_config p) tok1))
                       [(''Accept'', ''application/json''),
                        (''Content-Type'', ''application/x-www-form-urlencoded'')],
                  OktaFireRequest ''POST''
                       (okta_orgURL (security_config p) @ ''?''
                          @ urlencode (okta_parameters (security_config p) tok2))
                       [(''Accept'', ''application/json''),
                        (''Content-Type'', ''application/x-www-form-urlencoded'')]]"
    using k1(2) enc2 sent1 sent2 by auto
  have fields:
      "map_of (okta_claims sc i e j) ''sub'' = Some (PyStr (okta_clientId sc))"
      "map_of (okta_claims sc i e j) ''iss'' = Some (PyStr (okta_clientId sc))"
      "map_of (okta_claims sc i e j) ''aud'' = Some (PyStr (okta_orgURL sc))"
      "map_of (okta_claims sc i e j) ''iat'' = Some (PyInt i)"
      "map_of (okta_claims sc i e j) ''exp'' = Some (PyInt e)"
      "map_of (okta_claims sc i e j) ''jti'' = Some (PyStr j)" for sc i e j
    by (simp_all add: okta_claims_def)
  show ?thesis
    unfolding Let_def
    using requests okta_answered_dict(1) [OF assms(1)]
    by (simp add: claims2 okta_new_claims_eq [of _ w] fields nth_uuid_eq_iff
        okta_parameters_def)
qed

lemma mock_okta_first_call:
  \<open>okta_get_access_token (mock_okta ''/keys/private.pem'')
     (mock_world (Answers \<lparr>res_json = ''{"access_token":"abc","expires_in":3600}'', err = None\<rparr> # rs)) =
   (Inr (PyStr ''abc'', PyInt 3600),
    mock_okta ''/keys/private.pem''\<lparr>generated_auth_token := PyStr ''abc'', expiry := PyInt 3600\<rparr>,
    mock_world rs
      \<lparr>sent := [OktaFireRequest ''POST''
                  (''https://org.example/token?'' @ urlencode
                     (okta_parameters (security_config (mock_okta ''/keys/private.pem''))
                        ''signed-u''))
                  [(''Accept'', ''application/json''),
                   (''Content-Type'', ''application/x-www-form-urlencoded'')]],
       uuid_count := 1, time_count := 1\<rparr>)\<close>
proof -
  let ?p = "mock_okta ''/keys/private.pem''"
  let ?r = \<open>\<lparr>res_json = ''{"access_token":"abc","expires_in":3600}'', err = None\<rparr>\<close>
  have "okta_get_access_token ?p (mock_world (Answers ?r # rs)) =
      (Inr (PyStr ''abc'', PyInt 3600),
       ?p\<lparr>generated_auth_token := PyStr ''abc'', expiry := PyInt 3600\<rparr>,
       (mock_world (Answers ?r # rs))
         \<lparr>sent := sent (mock_world (Answers ?r # rs)) @ [OktaFireRequest ''POST''
                     (okta_orgURL (security_config ?p) @ ''?''
                        @ urlencode (okta_parameters (security_config ?p) ''signed-u''))
                     [(''Accept'', ''application/json''),
                      (''Content-Type'', ''application/x-www-form-urlencoded'')]],
          replies := rs, uuid_count := Suc (uuid_count (mock_world (Answers ?r # rs))),
          time_count := Suc (time_count (mock_world (Answers ?r # rs)))\<rparr>)"
    by (rule okta_success [where my_jwk = "''KEY''" and tok = "''signed-u''" and r = ?r
          and rs = rs
          and d = "[(''access_token'', PyStr ''abc''), (''expires_in'', PyInt 3600)]"])
       (simp_all add: mock_okta_def mock_world_def create_def security_config_def
          get_PEM_JWK_def okta_new_claims_def uuid4_def time_time_def nth_uuid_mock
          okta_claims_def mock_jwt_encode_def mock_json_loads_def success_body_def
          token_body_def Let_def)
  then show ?thesis
    by (simp add: mock_world_def mock_okta_def create_def security_config_def)
qed

theorem okta_assertion_claims_witness:
  \<open>map_of (fst (okta_new_claims (security_config (mock_okta ''/keys/private.pem''))
      (mock_world [Answers \<lparr>res_json = ''{"access_token":"abc","expires_in":3600}'', err = None\<rparr>,
                   Answers \<lparr>res_json = ''{"access_token":"xyz","expires_in":60}'', err = None\<rparr>])))
     ''jti'' = Some (PyStr ''u'') \<and>
   map_of (fst (okta_new_claims (security_config (mock_okta ''/keys/private.pem''))
      (world_after (okta_get_access_token (mock_okta ''/keys/private.pem'')
         (mock_world [Answers \<lparr>res_json = ''{"access_token":"abc","expires_in":3600}'', err = None\<rparr>,
                      Answers \<lparr>res_json = ''{"access_token":"xyz","expires_in":60}'', err = None\<rparr>])))))
     ''jti'' = Some (PyStr ''uu'') \<and>
   map_of (fst (okta_new_claims (security_config (mock_okta ''/keys/private.pem''))
      (world_after (okta_get_access_token (mock_okta ''/keys/private.pem'')
         (mock_world [Answers \<lparr>res_json = ''{"access_token":"abc","expires_in":3600}'', err = None\<rparr>,
                      Answers \<lparr>res_json = ''{"access_token":"xyz","expires_in":60}'', err = None\<rparr>])))))
     ''exp'' = Some (PyInt 1700003610) \<and>
   fst (okta_get_access_token (mock_okta ''/keys/private.pem'')
         (mock_world [Answers \<lparr>res_json = ''{"access_token":"abc","expires_in":3600}'', err = None\<rparr>,
                      Answers \<lparr>res_json = ''{"access_token":"xyz","expires_in":60}'', err = None\<rparr>]))
     = Inr (PyStr ''abc'', PyInt 3600)\<close>
proof -
  let ?p = "mock_okta ''/keys/private.pem''"
  let ?r1 = \<open>\<lparr>res_json = ''{"access_token":"abc","expires_in":3600}'', err = None\<rparr>\<close>
  let ?r2 = \<open>\<lparr>res_json = ''{"access_token":"xyz","expires_in":60}'', err = None\<rparr>\<close>
  let ?w = "mock_world [Answers ?r1, Answers ?r2]"
  have 1: "okta_answered ?p ?w (PyDict [(''access_token'', PyStr ''abc''), (''expires_in'', PyInt 3600)])"
    unfolding okta_answered_def
    by (simp add: mock_okta_signs)
       (simp add: mock_world_def mock_json_loads_def success_body_def token_body_def)
  have 2: "okta_signs (provider_after (okta_get_access_token ?p ?w))
      (world_after (okta_get_access_token ?p ?w))"
    by (simp add: mock_okta_first_call)
       (simp add: okta_signs_def mock_okta_def mock_world_def create_def security_config_def
          get_PEM_JWK_def okta_new_claims_def uuid4_def time_time_def nth_uuid_mock
          okta_claims_def mock_jwt_encode_def Let_def)
  have 3: "time_source ?w (Suc (time_count ?w)) = 1700000010"
      "nth_uuid (uuid_source ?w) (uuid_count ?w) = ''u''"
      "nth_uuid (uuid_source ?w) (Suc (uuid_count ?w)) = ''uu''"
    by (simp_all add: mock_world_def nth_uuid_mock)
  show ?thesis
    using okta_assertion_claims [OF 1 2]
    by (simp add: Let_def 3)
qed

subsection \<open>Failures\<close>

lemma return_fields_Inl:
  "fst (return_fields r) = Inl e \<longleftrightarrow> fst r = Inl e"
  by (cases r) (auto simp: return_fields_def split: sum.splits)

lemma exchange_never_exits:
  "exchange rq w \<noteq> (Inl (SystemExit c), w')"
  by (simp add: exchange_def Let_def split: list.splits reply.splits)

lemma getitem_never_exits:
  "getitem v k \<noteq> Inl (SystemExit c)"
  by (cases v) (simp_all split: option.splits)

lemma okta_try_never_exits:
  "fst (okta_try p w) \<noteq> Inl (SystemExit c)"
proof -
  have d: "dict_get v k \<noteq> Inl (SystemExit c)" for v k
    by (cases v) (simp_all split: option.splits)
  show ?thesis
    by (auto simp: d exchange_never_exits okta_try_def get_PEM_JWK_def loads_def okta_new_claims_def uuid4_def time_time_def nth_uuid_mock Let_def
        split: option.splits sum.splits prod.splits)
qed

lemma okta_always_exits:
  "fst (okta_get_access_token p w) = Inl e \<Longrightarrow> e = SystemExit None"
  using okta_try_never_exits [of p w]
  by (auto simp: okta_get_access_token_def return_fields_Inl okta_auth_token_def
      split: sum.splits prod.splits error.splits)

lemma azure_read_token_never_exits:
  "azure_read_token p token \<noteq> (Inl (SystemExit c), p')"
  by (auto simp: azure_read_token_def getitem_never_exits Let_def split: sum.splits)

lemma getitem_raises:
  "getitem v k = Inl x \<Longrightarrow> \<exists>y. x = Raised y"
  by (cases v) (auto split: option.splits)

lemma oidc_returns_or_raises:
  "(\<exists>x. fst (oidc_get_access_token p w) = Inl (Raised x)) \<or>
   (\<exists>r rs v t e. replies w = Answers r # rs \<and> ok r \<and>
      json_loads w (resp_text r) = Some v \<and>
      getitem v ''access_token'' = Inr t \<and> getitem v ''expires_in'' = Inr e \<and>
      fst (oidc_get_access_token p w) = Inr (t, e))"
  by (auto simp: oidc_get_access_token_def oidc_auth_token_def return_fields_def exchange_def
      loads_def Let_def dest: getitem_raises
      split: list.splits reply.splits option.splits sum.splits)

lemma auth0_returns_or_raises:
  "(\<exists>x. fst (auth0_get_access_token p w) = Inl (Raised x)) \<or>
   (\<exists>r rs v t e. replies w = Answers r # rs \<and>
      json_loads w (resp_text r) = Some v \<and>
      getitem v ''access_token'' = Inr t \<and> getitem v ''expires_in'' = Inr e \<and>
      fst (auth0_get_access_token p w) = Inr (t, e))"
  by (auto simp: auth0_get_access_token_def auth0_auth_token_def return_fields_def exchange_def
      loads_def Let_def dest: getitem_raises
      split: list.splits reply.splits option.splits sum.splits)

lemma google_returns_or_raises:
  "(\<exists>x. fst (google_get_access_token p w) = Inl (Raised x)) \<or>
   (\<exists>t e. google_refreshed p w t e \<and> fst (google_get_access_token p w) = Inr (t, e))"
  by (auto simp: google_get_access_token_def google_auth_token_def return_fields_def
      exchange_def from_service_account_file_def google_refreshed_def google_key_loads_def
      Let_def
      split: list.splits reply.splits option.splits sum.splits prod.splits)

lemma okta_turns_failure_into_exit:
  "fst (okta_try p w) = Inl e \<Longrightarrow> fst (okta_get_access_token p w) = Inl (SystemExit None)"
  using okta_try_never_exits [of p w]
  by (cases "okta_try p w"; cases e)
     (auto simp: okta_get_access_token_def okta_auth_token_def return_fields_def)

lemma okta_returns_or_exits:
  "fst (okta_get_access_token p w) = Inl (SystemExit None) \<or>
   (\<exists>d. okta_answered p w (PyDict d) \<and>
      fst (okta_get_access_token p w) =
        Inr (case map_of d ''access_token'' of None \<Rightarrow> PyNone | Some v \<Rightarrow> v,
             case map_of d ''expires_in'' of None \<Rightarrow> PyNone | Some v \<Rightarrow> v))"
proof (cases "fst (okta_get_access_token p w)")
  case (Inl e)
  then show ?thesis
    using okta_always_exits [of p w e] by simp
next
  case (Inr x)
  have "\<exists>d. okta_answered p w (PyDict d)"
    using Inr
    by (auto simp: okta_get_access_token_def okta_auth_token_def okta_try_def return_fields_def
        okta_answered_def okta_signs_def okta_new_claims_def uuid4_def time_time_def
        exchange_def loads_def Let_def
        split: list.splits reply.splits option.splits sum.splits prod.splits error.splits
        elim!: dict_get.elims)
  then show ?thesis
    using okta_answered_dict(1) by blast
qed

lemma azure_outcomes:
  "(\<exists>x. fst (azure_get_access_token p w) = Inl (Raised x)) \<or>
   (fst (azure_get_access_token p w) = Inl (SystemExit (Some 1)) \<and> azure_configured p \<and>
      (\<exists>token rs k. replies w = Answers token # rs \<and>
         fst (azure_read_token p token) = Inl (Raised (KeyError k)))) \<or>
   (azure_configured p \<and>
      (\<exists>token rs t e. replies w = Answers token # rs \<and>
         getitem token ''access_token'' = Inr t \<and> getitem token ''expires_in'' = Inr e \<and>
         fst (azure_get_access_token p w) = Inr (t, e)))"
  by (auto simp: azure_get_access_token_def azure_auth_token_def azure_read_token_def
      azure_configured_def return_fields_def getattr_def exchange_def Let_def
      dest: getitem_raises
      split: list.splits reply.splits option.splits sum.splits error.splits exn.splits)

lemma azure_KeyError_exits:
  assumes "azure_configured p" and "replies w = Answers token # rs"
    and "fst (azure_read_token p token) = Inl (Raised (KeyError k))"
  shows "fst (azure_get_access_token p w) = Inl (SystemExit (Some 1))"
  using assms
  by (cases "azure_read_token p token")
     (auto simp: azure_get_access_token_def azure_auth_token_def azure_configured_def
        return_fields_def getattr_def exchange_def Let_def)

lemma azure_transport_failure:
  assumes "azure_configured p" and "replies w = Fails x # rs"
  shows "fst (azure_get_access_token p w) = Inl (Raised x)"
  using assms
  by (auto simp: azure_get_access_token_def azure_auth_token_def azure_configured_def
        return_fields_def getattr_def exchange_def Let_def)

lemma azure_missing_attribute:
  assumes "\<not> azure_configured p"
  shows "\<exists>name. fst (azure_get_access_token p w) = Inl (Raised (AttributeError name))"
  using assms
  by (auto simp: azure_configured_def azure_get_access_token_def azure_auth_token_def
      return_fields_def getattr_def split: option.splits)

lemma google_failures:
  "files w (google_secretKey (security_config p)) = None \<Longrightarrow>
     fst (google_get_access_token p w) =
       Inl (Raised (FileNotFoundError (google_secretKey (security_config p))))"
  "google_key_loads p w \<Longrightarrow> replies w = Fails x # rs \<Longrightarrow>
     fst (google_get_access_token p w) = Inl (Raised x)"
  by (auto simp: google_get_access_token_def google_auth_token_def return_fields_def
      exchange_def from_service_account_file_def google_key_loads_def Let_def
      split: option.splits sum.splits)

lemma auth0_transport_failure:
  "replies w = Fails x # rs \<Longrightarrow> fst (auth0_get_access_token p w) = Inl (Raised x)"
  by (simp add: auth0_get_access_token_def auth0_auth_token_def return_fields_def
      exchange_def Let_def)

lemma oidc_failures:
  "replies w = Fails x # rs \<Longrightarrow> fst (oidc_get_access_token p w) = Inl (Raised x)"
  "replies w = Answers r # rs \<Longrightarrow> \<not> ok r \<Longrightarrow>
     fst (oidc_get_access_token p w) =
       Inl (Raised (APIError (PyDict [(''message'', PyStr (resp_text r))])
                      (Some (status_code r))))"
  by (simp_all add: oidc_get_access_token_def oidc_auth_token_def return_fields_def
      exchange_def Let_def)

text \<open>
  C2 as the specification states it: every failure of every provider surfaces as an
  exception the caller can catch, and no provider ends the process. The Okta provider
  does: an error reported by the exchange ends in \<^verbatim>\<open>sys.exit()\<close>.
\<close>

theorem okta_failure_ends_process:
  "fst (okta_get_access_token (mock_okta ''/keys/private.pem'')
          (mock_world [Answers \<lparr>res_json = [], err = Some ''invalid_client''\<rparr>]))
     = Inl (SystemExit None) \<and>
   terminates_process (SystemExit None)"
  by (simp add: okta_get_access_token_def okta_auth_token_def okta_try_def return_fields_def
      mock_okta_def mock_world_def create_def security_config_def get_PEM_JWK_def
      okta_new_claims_def uuid4_def time_time_def nth_uuid_mock okta_claims_def mock_jwt_encode_def exchange_def Let_def)

text \<open>
  C2, amended. The no-op provider never fails. The Google, Auth0 and generic-OIDC
  providers return a pair only when the exchange delivered it, and in every other case
  \<^verbatim>\<open>get_access_token\<close> raises an exception the caller can catch: a missing key file
  (configuration), an exchange that raises (transport), a response that is no success or
  lacks a field (upstream). The Okta provider turns every exception of the \<^verbatim>\<open>try\<close> block
  of \<^verbatim>\<open>auth_token\<close> into \<^verbatim>\<open>sys.exit()\<close>: it returns or it ends the process. The Azure
  provider raises on a missing attribute and on an exchange that raises, and ends the
  process with status 1 when a subscript of the answer of \<^verbatim>\<open>acquire_token_for_client\<close>
  raises \<^verbatim>\<open>KeyError\<close>, and only then.
\<close>

theorem failure_propagation:
  "fst (noop_get_access_token pn wn) \<noteq> Inl en \<and>
   ((\<exists>x. fst (google_get_access_token pg wg) = Inl (Raised x)) \<or>
    (\<exists>t e. google_refreshed pg wg t e \<and> fst (google_get_access_token pg wg) = Inr (t, e))) \<and>
   (files wg (google_secretKey (security_config pg)) = None \<longrightarrow>
      fst (google_get_access_token pg wg) =
        Inl (Raised (FileNotFoundError (google_secretKey (security_config pg))))) \<and>
   (google_key_loads pg wg \<and> replies wg = Fails xg # rsg \<longrightarrow>
      fst (google_get_access_token pg wg) = Inl (Raised xg)) \<and>
   ((\<exists>x. fst (auth0_get_access_token pa wa) = Inl (Raised x)) \<or>
    (\<exists>r rs v t e. replies wa = Answers r # rs \<and>
       json_loads wa (resp_text r) = Some v \<and>
       getitem v ''access_token'' = Inr t \<and> getitem v ''expires_in'' = Inr e \<and>
       fst (auth0_get_access_token pa wa) = Inr (t, e))) \<and>
   (replies wa = Fails xa # rsa \<longrightarrow> fst (auth0_get_access_token pa wa) = Inl (Raised xa)) \<and>
   ((\<exists>x. fst (oidc_get_access_token po wo) = Inl (Raised x)) \<or>
    (\<exists>r rs v t e. replies wo = Answers r # rs \<and> ok r \<and>
       json_loads wo (resp_text r) = Some v \<and>
       getitem v ''access_token'' = Inr t \<and> getitem v ''expires_in'' = Inr e \<and>
       fst (oidc_get_access_token po wo) = Inr (t, e))) \<and>
   (replies wo = Fails xo # rso \<longrightarrow> fst (oidc_get_access_token po wo) = Inl (Raised xo)) \<and>
   (replies wo = Answers ro # rso \<and> \<not> ok ro \<longrightarrow>
      fst (oidc_get_access_token po wo) =
        Inl (Raised (APIError (PyDict [(''message'', PyStr (resp_text ro))])
                       (Some (status_code ro))))) \<and>
   (fst (okta_get_access_token pk wk) = Inl (SystemExit None) \<or>
    (\<exists>d. okta_answered pk wk (PyDict d) \<and>
       fst (okta_get_access_token pk wk) =
         Inr (case map_of d ''access_token'' of None \<Rightarrow> PyNone | Some v \<Rightarrow> v,
              case map_of d ''expires_in'' of None \<Rightarrow> PyNone | Some v \<Rightarrow> v))) \<and>
   (fst (okta_try pk wk) = Inl ek \<longrightarrow>
      fst (okta_get_access_token pk wk) = Inl (SystemExit None)) \<and>
   ((\<exists>x. fst (azure_get_access_token pz wz) = Inl (Raised x)) \<or>
    (fst (azure_get_access_token pz wz) = Inl (SystemExit (Some 1)) \<and> azure_configured pz \<and>
       (\<exists>token rs k. replies wz = Answers token # rs \<and>
          fst (azure_read_token pz token) = Inl (Raised (KeyError k)))) \<or>
    (azure_configured pz \<and>
       (\<exists>token rs t e. replies wz = Answers token # rs \<and>
          getitem token ''access_token'' = Inr t \<and> getitem token ''expires_in'' = Inr e \<and>
          fst (azure_get_access_token pz wz) = Inr (t, e)))) \<and>
   (\<not> azure_configured pz \<longrightarrow>
      (\<exists>name. fst (azure_get_access_token pz wz) = Inl (Raised (AttributeError name)))) \<and>
   (azure_configured pz \<and> replies wz = Fails xz # rsz \<longrightarrow>
      fst (azure_get_access_token pz wz) = Inl (Raised xz)) \<and>
   (azure_configured pz \<and> replies wz = Answers tz # rsz \<and>
      fst (azure_read_token pz tz) = Inl (Raised (KeyError kz)) \<longrightarrow>
      fst (azure_get_access_token pz wz) = Inl (SystemExit (Some 1)))"
proof -
  have noop: "fst (noop_get_access_token pn wn) \<noteq> Inl en"
    by (simp add: noop_get_access_token_def)
  have g2: "files wg (google_secretKey (security_config pg)) = None \<longrightarrow>
      fst (google_get_access_token pg wg) =
        Inl (Raised (FileNotFoundError (google_secretKey (security_config pg))))"
    by (simp add: google_failures(1))
  have g3: "google_key_loads pg wg \<and> replies wg = Fails xg # rsg \<longrightarrow>
      fst (google_get_access_token pg wg) = Inl (Raised xg)"
    by (simp add: google_failures(2))
  have a2: "replies wa = Fails xa # rsa \<longrightarrow>
      fst (auth0_get_access_token pa wa) = Inl (Raised xa)"
    by (simp add: auth0_transport_failure)
  have o2: "replies wo = Fails xo # rso \<longrightarrow>
      fst (oidc_get_access_token po wo) = Inl (Raised xo)"
    by (simp add: oidc_failures(1))
  have o3: "replies wo = Answers ro # rso \<and> \<not> ok ro \<longrightarrow>
      fst (oidc_get_access_token po wo) =
        Inl (Raised (APIError (PyDict [(''message'', PyStr (resp_text ro))])
                       (Some (status_code ro))))"
    by (simp add: oidc_failures(2))
  have k2: "fst (okta_try pk wk) = Inl ek \<longrightarrow>
      fst (okta_get_access_token pk wk) = Inl (SystemExit None)"
    by (simp add: okta_turns_failure_into_exit)
  have z2: "\<not> azure_configured pz \<longrightarrow>
      (\<exists>name. fst (azure_get_access_token pz wz) = Inl (Raised (AttributeError name)))"
    by (simp add: azure_missing_attribute)
  have z3: "azure_configured pz \<and> replies wz = Fails xz # rsz \<longrightarrow>
      fst (azure_get_access_token pz wz) = Inl (Raised xz)"
    by (simp add: azure_transport_failure)
  have z4: "azure_configured pz \<and> replies wz = Answers tz # rsz \<and>
      fst (azure_read_token pz tz) = Inl (Raised (KeyError kz)) \<longrightarrow>
      fst (azure_get_access_token pz wz) = Inl (SystemExit (Some 1))"
    using azure_KeyError_exits by blast
  note total = google_returns_or_raises [of pg wg] auth0_returns_or_raises [of pa wa]
    oidc_returns_or_raises [of po wo] okta_returns_or_exits [of pk wk]
    azure_outcomes [of pz wz]
  show ?thesis
    by (intro conjI) (fact noop total g2 g3 a2 o2 o3 k2 z2 z3 z4)+
qed

theorem failure_propagation_witness:
  \<open>fst (google_get_access_token (mock_google ''/keys/missing.json'')
          (mock_world [Answers (PyStr ''abc'', PyInt 3600)]))
     = Inl (Raised (FileNotFoundError ''/keys/missing.json'')) \<and>
   fst (google_get_access_token (mock_google ''/keys/private.pem'')
          (mock_world [Fails (ExternalError ''refresh refused'')]))
     = Inl (Raised (ExternalError ''refresh refused'')) \<and>
   fst (auth0_get_access_token mock_auth0 (mock_world [Fails (ExternalError ''timeout'')]))
     = Inl (Raised (ExternalError ''timeout'')) \<and>
   fst (oidc_get_access_token mock_oidc
          (mock_world [Answers (response_400 ''{"error":"invalid_client"}'')]))
     = Inl (Raised (APIError (PyDict [(''message'', PyStr ''{"error":"invalid_client"}'')])
                      (Some 400))) \<and>
   fst (okta_get_access_token (mock_okta ''/keys/private.pem'')
          (mock_world [Fails (ExternalError ''timeout'')]))
     = Inl (SystemExit None) \<and>
   fst (azure_get_access_token mock_azure (mock_world [Answers (PyDict [])]))
     = Inl (SystemExit (Some 1)) \<and>
   fst (azure_get_access_token mock_azure (mock_world [Fails (ExternalError ''timeout'')]))
     = Inl (Raised (ExternalError ''timeout''))\<close>
proof -
  let ?pk = "mock_okta ''/keys/private.pem''"
  let ?wk = "mock_world [Fails (ExternalError ''timeout'')] :: okta_result world"
  have g1: "files (mock_world [Answers (PyStr ''abc'', PyInt 3600)])
      (google_secretKey (security_config (mock_google ''/keys/missing.json''))) = None"
    by (simp add: mock_world_def mock_google_def create_def security_config_def)
  have g2: "google_key_loads (mock_google ''/keys/private.pem'')
        (mock_world [Fails (ExternalError ''refresh refused'')]) \<and>
      replies (mock_world [Fails (ExternalError ''refresh refused'')] :: (pyval \<times> pyval) world)
        = Fails (ExternalError ''refresh refused'') # []"
    by (simp add: google_key_loads_def from_service_account_file_def mock_world_def
        mock_google_def create_def security_config_def)
  have a: "replies (mock_world [Fails (ExternalError ''timeout'')] :: response world)
      = Fails (ExternalError ''timeout'') # []"
    by (simp add: mock_world_def)
  have o: \<open>replies (mock_world [Answers (response_400 ''{"error":"invalid_client"}'')])
        = Answers (response_400 ''{"error":"invalid_client"}'') # [] \<and>
      \<not> ok (response_400 ''{"error":"invalid_client"}'')\<close>
    by (simp add: mock_world_def response_400_def ok_def)
  have k: "fst (okta_try ?pk ?wk) = Inl (Raised (ExternalError ''timeout''))"
    by (simp add: okta_try_def mock_okta_def mock_world_def create_def security_config_def
        get_PEM_JWK_def okta_new_claims_def uuid4_def time_time_def nth_uuid_mock
        okta_claims_def mock_jwt_encode_def exchange_def Let_def)
  have z: "azure_configured mock_azure"
    by (simp add: azure_configured_def mock_azure_def create_def)
  have z1: "replies (mock_world [Answers (PyDict [])]) = Answers (PyDict []) # [] \<and>
      fst (azure_read_token mock_azure (PyDict [])) = Inl (Raised (KeyError ''access_token''))"
    by (simp add: mock_world_def azure_read_token_def)
  have z2: "replies (mock_world [Fails (ExternalError ''timeout'')] :: pyval world)
      = Fails (ExternalError ''timeout'') # []"
    by (simp add: mock_world_def)
  note fp = failure_propagation [where pn = "()" and wn = "()" and en = "SystemExit None"
      and pg = "mock_google ''/keys/missing.json''"
      and wg = "mock_world [Answers (PyStr ''abc'', PyInt 3600)]"
      and xg = "ExternalError ''refresh refused''" and rsg = "[]"
      and pa = mock_auth0 and wa = "mock_world [Fails (ExternalError ''timeout'')]"
      and xa = "ExternalError ''timeout''" and rsa = "[]"
      and po = mock_oidc
      and wo = \<open>mock_world [Answers (response_400 ''{"error":"invalid_client"}'')]\<close>
      and xo = "ExternalError ''timeout''"
      and ro = \<open>response_400 ''{"error":"invalid_client"}''\<close> and rso = "[]"
      and pk = ?pk and wk = ?wk and ek = "Raised (ExternalError ''timeout'')"
      and pz = mock_azure and wz = "mock_world [Answers (PyDict [])]"
      and xz = "ExternalError ''timeout''"
      and tz = "PyDict []" and rsz = "[]" and kz = "''access_token''"]
  note fp2 = failure_propagation [where pn = "()" and wn = "()" and en = "SystemExit None"
      and pg = "mock_google ''/keys/private.pem''"
      and wg = "mock_world [Fails (ExternalError ''refresh refused'')]"
      and xg = "ExternalError ''refresh refused''" and rsg = "[]"
      and pa = mock_auth0 and wa = "mock_world [Fails (ExternalError ''timeout'')]"
      and xa = "ExternalError ''timeout''" and rsa = "[]"
      and po = mock_oidc
      and wo = \<open>mock_world [Answers (response_400 ''{"error":"invalid_client"}'')]\<close>
      and xo = "ExternalError ''timeout''"
      and ro = \<open>response_400 ''{"error":"invalid_client"}''\<close> and rso = "[]"
      and pk = ?pk and wk = ?wk and ek = "Raised (ExternalError ''timeout'')"
      and pz = mock_azure and wz = "mock_world [Fails (ExternalError ''timeout'')]"
      and xz = "ExternalError ''timeout''"
      and tz = "PyDict []" and rsz = "[]" and kz = "''access_token''"]
  have c1: "fst (google_get_access_token (mock_google ''/keys/missing.json'')
          (mock_world [Answers (PyStr ''abc'', PyInt 3600)]))
     = Inl (Raised (FileNotFoundError
         (google_secretKey (security_config (mock_google ''/keys/missing.json'')))))"
    by (rule fp [THEN conjunct2, THEN conjunct2, THEN conjunct1, THEN mp, OF g1])
  have c2: "fst (google_get_access_token (mock_google ''/keys/private.pem'')
          (mock_world [Fails (ExternalError ''refresh refused'')]))
     = Inl (Raised (ExternalError ''refresh refused''))"
    by (rule fp2 [THEN conjunct2, THEN conjunct2, THEN conjunct2, THEN conjunct1, THEN mp, OF g2])
  have c3: "fst (auth0_get_access_token mock_auth0 (mock_world [Fails (ExternalError ''timeout'')]))
     = Inl (Raised (ExternalError ''timeout''))"
    by (rule fp [THEN conjunct2, THEN conjunct2, THEN conjunct2, THEN conjunct2, THEN conjunct2, THEN conjunct1, THEN mp, OF a])
  have c4: \<open>fst (oidc_get_access_token mock_oidc
          (mock_world [Answers (response_400 ''{"error":"invalid_client"}'')]))
     = Inl (Raised (APIError
         (PyDict [(''message'', PyStr (resp_text (response_400 ''{"error":"invalid_client"}'')))])
         (Some (status_code (response_400 ''{"error":"invalid_client"}'')))))\<close>
    by (rule fp [THEN conjunct2, THEN conjunct2, THEN conjunct2, THEN conjunct2, THEN conjunct2, THEN conjunct2, THEN conjunct2, THEN conjunct2, THEN conjunct1, THEN mp, OF o])
  have c5: "fst (okta_get_access_token ?pk ?wk) = Inl (SystemExit None)"
    by (rule fp [THEN conjunct2, THEN conjunct2, THEN conjunct2, THEN conjunct2, THEN conjunct2, THEN conjunct2, THEN conjunct2, THEN conjunct2, THEN conjunct2, THEN conjunct2, THEN conjunct1, THEN mp, OF k])
  have c6: "fst (azure_get_access_token mock_azure (mock_world [Answers (PyDict [])]))
     = Inl (SystemExit (Some 1))"
    by (rule fp [THEN conjunct2, THEN conjunct2, THEN conjunct2, THEN conjunct2, THEN conjunct2, THEN conjunct2, THEN conjunct2, THEN conjunct2, THEN conjunct2, THEN conjunct2, THEN conjunct2, THEN conjunct2, THEN conjunct2, THEN conjunct2, THEN mp, OF conjI [OF z z1]])
  have c7: "fst (azure_get_access_token mock_azure (mock_world [Fails (ExternalError ''timeout'')]))
     = Inl (Raised (ExternalError ''timeout''))"
    by (rule fp2 [THEN conjunct2, THEN conjunct2, THEN conjunct2, THEN conjunct2, THEN conjunct2, THEN conjunct2, THEN conjunct2, THEN conjunct2, THEN conjunct2, THEN conjunct2, THEN conjunct2, THEN conjunct2, THEN conjunct2, THEN conjunct1, THEN mp, OF conjI [OF z z2]])
  show ?thesis
    using c1 c2 c3 c4 c5 c6 c7
    by (simp add: mock_google_def create_def security_config_def response_400_def)
qed

subsection \<open>A rejected client\<close>

lemma body_names_invalid_client:
  \<open>sublist ''invalid_client'' ''{"error":"invalid_client"}''\<close>
proof -
  have \<open>''{"error":"invalid_client"}'' = ''{"error":"'' @ ''invalid_client'' @ ''"}''\<close>
    by simp
  then show ?thesis
    unfolding sublist_def by blast
qed

text \<open>
  C3 as the specification states it: every authenticated provider answers a rejected
  client with an upstream-auth error whose message names \<^verbatim>\<open>invalid_client\<close>. The Azure
  provider does not: the answer of \<^verbatim>\<open>acquire_token_for_client\<close> for a rejected client
  is the dictionary \<^verbatim>\<open>{"error": "invalid_client"}\<close>, the subscript raises \<^verbatim>\<open>KeyError\<close>,
  and the provider ends the process with \<^verbatim>\<open>sys.exit(1)\<close>.
\<close>

theorem azure_invalid_client_ends_process:
  "fst (azure_get_access_token mock_azure
          (mock_world [Answers (PyDict [(''error'', PyStr ''invalid_client'')])]))
     = Inl (SystemExit (Some 1)) \<and>
   terminates_process (SystemExit (Some 1))"
  by (simp add: azure_get_access_token_def azure_auth_token_def azure_read_token_def
      getattr_def return_fields_def exchange_def Let_def mock_azure_def create_def
      mock_world_def)

text \<open>
  C3, amended. When the token endpoint answers with status 400 and the body
  \<^verbatim>\<open>{"error":"invalid_client"}\<close>, the generic-OIDC provider raises \<^verbatim>\<open>APIError\<close> whose
  message is that body, which names \<^verbatim>\<open>invalid_client\<close>, with the status 400. The Google
  provider raises the error its SDK's refresh raises. The Azure provider, given the
  dictionary of that body as the answer, ends the process with status 1. The Okta
  provider, handed that body, ends the process when the exchange reports an error, and
  returns \<^verbatim>\<open>(None, None)\<close> when it reports none. The Auth0 provider fails as well. No
  provider returns a token value.
\<close>

theorem invalid_client_response:
  assumes \<open>replies wo = Answers ro # rso\<close>
    and \<open>status_code ro = 400\<close>
    and \<open>resp_text ro = ''{"error":"invalid_client"}''\<close>
    and \<open>replies wa = Answers ra # rsa\<close>
    and \<open>json_loads wa (resp_text ra) = Some (PyDict [(''error'', PyStr ''invalid_client'')])\<close>
    and \<open>okta_signs pk wk\<close>
    and \<open>replies wk = Answers rk # rsk\<close>
    and \<open>res_json rk = ''{"error":"invalid_client"}''\<close>
    and \<open>json_loads wk (res_json rk) = Some (PyDict [(''error'', PyStr ''invalid_client'')])\<close>
    and \<open>azure_configured pz\<close>
    and \<open>replies wz = Answers (PyDict [(''error'', PyStr ''invalid_client'')]) # rsz\<close>
    and \<open>google_key_loads pg wg\<close>
    and \<open>replies wg = Fails xg # rsg\<close>
  shows \<open>fst (oidc_get_access_token po wo) =
           Inl (Raised (APIError (PyDict [(''message'', PyStr ''{"error":"invalid_client"}'')])
                          (Some 400))) \<and>
         sublist ''invalid_client'' ''{"error":"invalid_client"}'' \<and>
         (\<exists>e. fst (auth0_get_access_token pa wa) = Inl e) \<and>
         (err rk \<noteq> None \<longrightarrow> fst (okta_get_access_token pk wk) = Inl (SystemExit None)) \<and>
         (err rk = None \<longrightarrow> fst (okta_get_access_token pk wk) = Inr (PyNone, PyNone)) \<and>
         fst (azure_get_access_token pz wz) = Inl (SystemExit (Some 1)) \<and>
         fst (google_get_access_token pg wg) = Inl (Raised xg)\<close>
proof -
  have oidc: \<open>fst (oidc_get_access_token po wo) =
           Inl (Raised (APIError (PyDict [(''message'', PyStr ''{"error":"invalid_client"}'')])
                          (Some 400)))\<close>
    using assms(1-3)
    by (simp add: oidc_get_access_token_def oidc_auth_token_def return_fields_def
        exchange_Answers ok_def Let_def)
  have auth0: "\<exists>e. fst (auth0_get_access_token pa wa) = Inl e"
    using assms(4,5)
    by (simp add: auth0_get_access_token_def auth0_auth_token_def return_fields_def
        exchange_Answers loads_def Let_def)
  obtain my_jwk tok where k:
      "get_PEM_JWK wk (okta_privateKey (security_config pk)) = Inr my_jwk"
      "jwt_encode wk (fst (okta_new_claims (security_config pk) wk)) my_jwk JWT_HASH_ALGORITHM
         = Some tok"
    using assms(6) by (rule okta_signs_key)
  have okta1: "fst (okta_get_access_token pk wk) = Inl (SystemExit None)" if "err rk \<noteq> None"
    using k assms(7) that
    by (auto simp: okta_get_access_token_def okta_auth_token_def okta_try_def return_fields_def
        okta_new_claims_def uuid4_def time_time_def exchange_Answers Let_def)
  have okta2: "fst (okta_get_access_token pk wk) = Inr (PyNone, PyNone)" if "err rk = None"
  proof -
    have "okta_answered pk wk (PyDict [(''error'', PyStr ''invalid_client'')])"
      using assms(6,7,9) that by (simp add: okta_answered_def)
    from okta_answered_dict(1) [OF this] show ?thesis by simp
  qed
  obtain a1 a2 a3 a4 where a:
      "map_of (attributes (config pz)) ''client_id'' = Some a1"
      "map_of (attributes (config pz)) ''secret_key'' = Some a2"
      "map_of (attributes (config pz)) ''authority'' = Some a3"
      "map_of (attributes (config pz)) ''scopes'' = Some a4"
    using assms(10) by (auto simp: azure_configured_def)
  have azure: "fst (azure_get_access_token pz wz) = Inl (SystemExit (Some 1))"
    using a assms(11)
    by (simp add: azure_get_access_token_def azure_auth_token_def azure_read_token_def
        return_fields_def getattr_def exchange_Answers Let_def)
  have google: "fst (google_get_access_token pg wg) = Inl (Raised xg)"
    using assms(12,13) by (rule google_failures(2))
  show ?thesis
    using oidc auth0 okta1 okta2 azure google body_names_invalid_client by simp
qed

theorem invalid_client_response_witness:
  \<open>fst (oidc_get_access_token mock_oidc
          (mock_world [Answers (response_400 ''{"error":"invalid_client"}'')])) =
     Inl (Raised (APIError (PyDict [(''message'', PyStr ''{"error":"invalid_client"}'')])
                    (Some 400))) \<and>
   fst (okta_get_access_token (mock_okta ''/keys/private.pem'')
          (mock_world [Answers \<lparr>res_json = ''{"error":"invalid_client"}'',
                                err = Some ''invalid_client''\<rparr>])) =
     Inl (SystemExit None) \<and>
   fst (okta_get_access_token (mock_okta ''/keys/private.pem'')
          (mock_world [Answers \<lparr>res_json = ''{"error":"invalid_client"}'', err = None\<rparr>])) =
     Inr (PyNone, PyNone) \<and>
   fst (azure_get_access_token mock_azure
          (mock_world [Answers (PyDict [(''error'', PyStr ''invalid_client'')])])) =
     Inl (SystemExit (Some 1)) \<and>
   fst (google_get_access_token (mock_google ''/keys/private.pem'')
          (mock_world [Fails (ExternalError ''invalid_client'')])) =
     Inl (Raised (ExternalError ''invalid_client''))\<close>
proof -
  let ?body = \<open>''{"error":"invalid_client"}''\<close>
  let ?dict = "PyDict [(''error'', PyStr ''invalid_client'')]"
  let ?wh = "mock_world [Answers (response_400 ?body)]"
  let ?pk = "mock_okta ''/keys/private.pem''"
  let ?r1 = "\<lparr>res_json = ?body, err = Some ''invalid_client''\<rparr>"
  let ?r2 = "\<lparr>res_json = ?body, err = None\<rparr>"
  let ?wz = "mock_world [Answers ?dict]"
  let ?pg = "mock_google ''/keys/private.pem''"
  let ?wg = "mock_world [Fails (ExternalError ''invalid_client'')] :: (pyval \<times> pyval) world"
  have o: "replies ?wh = Answers (response_400 ?body) # []"
      "status_code (response_400 ?body) = 400" "resp_text (response_400 ?body) = ?body"
      "json_loads ?wh (resp_text (response_400 ?body)) = Some ?dict"
    by (simp_all add: mock_world_def response_400_def mock_json_loads_def)
  have k1: "replies (mock_world [Answers ?r1]) = Answers ?r1 # []" "res_json ?r1 = ?body"
      "json_loads (mock_world [Answers ?r1]) (res_json ?r1) = Some ?dict"
    by (simp_all add: mock_world_def mock_json_loads_def)
  have k2: "replies (mock_world [Answers ?r2]) = Answers ?r2 # []" "res_json ?r2 = ?body"
      "json_loads (mock_world [Answers ?r2]) (res_json ?r2) = Some ?dict"
    by (simp_all add: mock_world_def mock_json_loads_def)
  have z: "azure_configured mock_azure" "replies ?wz = Answers ?dict # []"
    by (simp_all add: azure_configured_def mock_azure_def create_def mock_world_def)
  have g: "google_key_loads ?pg ?wg" "replies ?wg = Fails (ExternalError ''invalid_client'') # []"
    by (simp_all add: google_key_loads_def from_service_account_file_def mock_world_def
        mock_google_def create_def security_config_def)
  note reported = invalid_client_response [OF o(1,2,3) o(1,4) mock_okta_signs k1 z g,
      of mock_oidc mock_auth0]
  note silent = invalid_client_response [OF o(1,2,3) o(1,4) mock_okta_signs k2 z g,
      of mock_oidc mock_auth0]
  have e1: "err ?r1 \<noteq> None" and e2: "err ?r2 = None"
    by simp_all
  note c1 = reported [THEN conjunct1]
  note c2 = reported [THEN conjunct2, THEN conjunct2, THEN conjunct2, THEN conjunct1, THEN mp,
      OF e1]
  note c3 = silent [THEN conjunct2, THEN conjunct2, THEN conjunct2, THEN conjunct2,
      THEN conjunct1, THEN mp, OF e2]
  note c4 = reported [THEN conjunct2, THEN conjunct2, THEN conjunct2, THEN conjunct2,
      THEN conjunct2, THEN conjunct1]
  note c5 = reported [THEN conjunct2, THEN conjunct2, THEN conjunct2, THEN conjunct2,
      THEN conjunct2, THEN conjunct2]
  show ?thesis
    by (intro conjI) (rule c1 c2 c3 c4 c5)+
qed

subsection \<open>A private-key file that does not exist\<close>

text \<open>
  C6 as the specification states it: with a private-key file that does not exist, the
  Google and the Okta provider fail with a configuration error before any network call.
  The Okta provider makes no network call, but it does not fail with an error the caller
  can handle: it ends the process.
\<close>

theorem okta_missing_key_ends_process:
  "okta_get_access_token (mock_okta ''/keys/missing.pem'')
     (mock_world [Answers \<lparr>res_json = ''{}'', err = None\<rparr>]) =
     (Inl (SystemExit None), mock_okta ''/keys/missing.pem'',
      mock_world [Answers \<lparr>res_json = ''{}'', err = None\<rparr>]) \<and>
   terminates_process (SystemExit None)"
  by (simp add: okta_get_access_token_def okta_auth_token_def okta_try_def return_fields_def
      get_PEM_JWK_def mock_okta_def create_def security_config_def mock_world_def Let_def)

text \<open>
  C6, amended. With a private-key file that does not exist, the Google provider raises
  the \<^verbatim>\<open>FileNotFoundError\<close> of the key loader, and the Okta provider, for which the
  configured string is then no key material either, ends the process with
  \<^verbatim>\<open>sys.exit()\<close>. Both do so before any exchange: provider and world are unchanged.
\<close>

theorem missing_key_file_fails_before_exchange:
  assumes "files wg (google_secretKey (security_config pg)) = None"
    and "files wk (okta_privateKey (security_config pk)) = None"
    and "import_key wk (okta_privateKey (security_config pk)) = None"
  shows "google_get_access_token pg wg =
           (Inl (Raised (FileNotFoundError (google_secretKey (security_config pg)))), pg, wg) \<and>
         okta_get_access_token pk wk = (Inl (SystemExit None), pk, wk)"
  using assms
  by (simp add: google_get_access_token_def google_auth_token_def from_service_account_file_def
      okta_get_access_token_def okta_auth_token_def okta_try_def get_PEM_JWK_def
      return_fields_def Let_def)

theorem missing_key_file_witness:
  "google_get_access_token (mock_google ''/keys/missing.json'')
     (mock_world [Answers (PyStr ''abc'', PyInt 3600)]) =
     (Inl (Raised (FileNotFoundError ''/keys/missing.json'')), mock_google ''/keys/missing.json'',
      mock_world [Answers (PyStr ''abc'', PyInt 3600)]) \<and>
   sent (world_after (okta_get_access_token (mock_okta ''/keys/missing.pem'')
     (mock_world [Answers \<lparr>res_json = ''{}'', err = None\<rparr>]))) = []"
  using missing_key_file_fails_before_exchange [of
      "mock_world [Answers (PyStr ''abc'', PyInt 3600)]" "mock_google ''/keys/missing.json''"
      "mock_world [Answers \<lparr>res_json = ''{}'', err = None\<rparr>]" "mock_okta ''/keys/missing.pem''"]
  by (simp add: mock_google_def mock_okta_def create_def security_config_def mock_world_def)

end
